theory Spec2Isabelle
  imports Main "HOL-Library.Sublist"
begin

section \<open>Python primitives used by \<^verbatim>\<open>btx/processing/indexer.py\<close>\<close>

text \<open>
  The module is string templating, text parsing and file output. Strings are
  \<^typ>\<open>string\<close>, Python's unbounded integers are \<^typ>\<open>int\<close>, and every exception the
  module can raise by itself is a constructor of \<^verbatim>\<open>py_error\<close>; a computation that may
  raise returns \<^verbatim>\<open>py_error + 'a\<close> with \<^const>\<open>Inl\<close> for the exception.
\<close>

datatype py_error =
    KeyError string
  | ValueError
  | IndexError
  | ZeroDivisionError
  | OverflowError
  | FileNotFoundError
  | ImportError

subsection \<open>Integers to text: \<^verbatim>\<open>str(i)\<close> and \<^verbatim>\<open>format(i, '04')\<close>\<close>

definition digit_chr :: "nat \<Rightarrow> char" where
  "digit_chr d = ''0123456789'' ! d"

fun str_nat :: "nat \<Rightarrow> string" where
  "str_nat n = (if n < 10 then [digit_chr n] else str_nat (n div 10) @ [digit_chr (n mod 10)])"

declare str_nat.simps [simp del]

definition str_int :: "int \<Rightarrow> string" where
  "str_int i = (if i < 0 then ''-'' @ str_nat (nat (- i)) else str_nat (nat i))"

text \<open>
  The format specification \<^verbatim>\<open>04\<close> is zero fill to width 4; the fill is sign aware, so
  the zeros go between the sign and the digits (\<^verbatim>\<open>f'{-7:04}' == '-007'\<close>), and a number
  wider than the field is not cut.
\<close>

definition zero_fill :: "nat \<Rightarrow> string \<Rightarrow> string" where
  "zero_fill w s = replicate (w - length s) (CHR ''0'') @ s"

definition format_04 :: "int \<Rightarrow> string" where
  "format_04 i =
     (if i < 0 then ''-'' @ zero_fill 3 (str_nat (nat (- i))) else zero_fill 4 (str_nat (nat i)))"

text \<open>An f-string renders \<^verbatim>\<open>None\<close> as the text \<^verbatim>\<open>None\<close> and a string as itself.\<close>

definition fstr_opt :: "string option \<Rightarrow> string" where
  "fstr_opt v = (case v of None \<Rightarrow> ''None'' | Some s \<Rightarrow> s)"

subsection \<open>Text to integers: \<^verbatim>\<open>int(s)\<close>\<close>

text \<open>
  \<^verbatim>\<open>int(s)\<close> in base 10: surrounding whitespace is dropped, one sign is allowed, then at
  least one digit, with single underscores allowed between digits. Anything else raises
  \<^verbatim>\<open>ValueError\<close>. Strings are byte strings here, so only the ASCII whitespace (the blank
  and the characters 9 to 13) and the ASCII digits are recognised; the interpreter's
  optional limit on the number of digits is not modelled.
\<close>

definition is_space :: "char \<Rightarrow> bool" where
  "is_space c \<longleftrightarrow> c \<in> set [CHR '' '', CHR 0x09, CHR 0x0A, CHR 0x0B, CHR 0x0C, CHR 0x0D]"

definition is_digit :: "char \<Rightarrow> bool" where
  "is_digit c \<longleftrightarrow> c \<in> set ''0123456789''"

definition digit_val :: "char \<Rightarrow> nat" where
  "digit_val c = of_char c - 48"

definition strip_space :: "string \<Rightarrow> string" where
  "strip_space s = rev (dropWhile is_space (rev (dropWhile is_space s)))"

fun parse_digits :: "nat \<Rightarrow> string \<Rightarrow> nat option" where
  "parse_digits acc [] = Some acc"
| "parse_digits acc (c # cs) =
     (if is_digit c then parse_digits (10 * acc + digit_val c) cs
      else if c = CHR ''_'' then
        (case cs of
           [] \<Rightarrow> None
         | d # ds \<Rightarrow> if is_digit d then parse_digits (10 * acc + digit_val d) ds else None)
      else None)"

definition parse_nat :: "string \<Rightarrow> nat option" where
  "parse_nat s =
     (case s of
        [] \<Rightarrow> None
      | c # cs \<Rightarrow> if is_digit c then parse_digits (digit_val c) cs else None)"

definition py_int :: "string \<Rightarrow> py_error + int" where
  "py_int s =
     (case strip_space s of
        [] \<Rightarrow> Inl ValueError
      | c # cs \<Rightarrow>
          if c = CHR ''-'' then
            (case parse_nat cs of None \<Rightarrow> Inl ValueError | Some n \<Rightarrow> Inr (- int n))
          else if c = CHR ''+'' then
            (case parse_nat cs of None \<Rightarrow> Inl ValueError | Some n \<Rightarrow> Inr (int n))
          else
            (case parse_nat (c # cs) of None \<Rightarrow> Inl ValueError | Some n \<Rightarrow> Inr (int n)))"

subsection \<open>Paths: \<^verbatim>\<open>os.path.join\<close> with two arguments (POSIX)\<close>

text \<open>
  \<^verbatim>\<open>posixpath.join(a, b)\<close>: an absolute \<^verbatim>\<open>b\<close> replaces \<^verbatim>\<open>a\<close>; otherwise \<^verbatim>\<open>b\<close> is appended,
  and a separator is put between the two only when \<^verbatim>\<open>a\<close> is non-empty and does not end
  with one already.
\<close>

definition startswith :: "string \<Rightarrow> string \<Rightarrow> bool" where
  "startswith s p \<longleftrightarrow> take (length p) s = p"

definition endswith :: "string \<Rightarrow> string \<Rightarrow> bool" where
  "endswith s p \<longleftrightarrow> length p \<le> length s \<and> drop (length s - length p) s = p"

definition path_join :: "string \<Rightarrow> string \<Rightarrow> string" where
  "path_join a b =
     (if startswith b ''/'' then b
      else if a = [] \<or> endswith a ''/'' then a @ b
      else a @ ''/'' @ b)"

subsection \<open>Splitting and stripping text\<close>

text \<open>
  \<^verbatim>\<open>s.split(c)\<close> for a separator of one character (never an empty list), \<^verbatim>\<open>s.strip(c)\<close>
  for a set of one character, the translation of \<^verbatim>\<open>\r\n\<close> and \<^verbatim>\<open>\r\<close> to \<^verbatim>\<open>\n\<close> that text
  mode applies to what is read, and \<^verbatim>\<open>f.readlines()\<close>, which keeps the line ends.
\<close>

fun split_on :: "char \<Rightarrow> string \<Rightarrow> string list" where
  "split_on c [] = [[]]"
| "split_on c (x # xs) =
     (if x = c then [] # split_on c xs
      else (case split_on c xs of [] \<Rightarrow> [[x]] | p # ps \<Rightarrow> (x # p) # ps))"

definition strip_chr :: "char \<Rightarrow> string \<Rightarrow> string" where
  "strip_chr c s = rev (dropWhile (\<lambda>x. x = c) (rev (dropWhile (\<lambda>x. x = c) s)))"

fun universal_newlines :: "string \<Rightarrow> string" where
  "universal_newlines [] = []"
| "universal_newlines [c] = (if c = CHR 0x0D then [CHR 0x0A] else [c])"
| "universal_newlines (c # d # ds) =
     (if c = CHR 0x0D \<and> d = CHR 0x0A then CHR 0x0A # universal_newlines ds
      else if c = CHR 0x0D then CHR 0x0A # universal_newlines (d # ds)
      else c # universal_newlines (d # ds))"

fun keep_lines :: "string \<Rightarrow> string list" where
  "keep_lines [] = []"
| "keep_lines (c # cs) =
     (if c = CHR 0x0A then [c] # keep_lines cs
      else (case keep_lines cs of [] \<Rightarrow> [[c]] | l # ls \<Rightarrow> (c # l) # ls))"

definition readlines :: "string \<Rightarrow> string list" where
  "readlines content = keep_lines (universal_newlines content)"

text \<open>
  The lines of a text as a reader of the file counts them: the pieces between line feeds,
  a last piece without a line feed counting only when it is not empty.
\<close>

definition text_lines :: "string \<Rightarrow> string list" where
  "text_lines s = (let ps = split_on (CHR 0x0A) s in if last ps = [] then butlast ps else ps)"

subsection \<open>True division of integers and \<^verbatim>\<open>format(x, '.2f')\<close>\<close>

text \<open>
  A float is kept exactly, as sign, significand and binary exponent: \<^verbatim>\<open>PyFloat s m e\<close> is
  \<open>(-1)\<^sup>s \<sqdot> m \<sqdot> 2\<^sup>e\<close>. \<^verbatim>\<open>a / b\<close> on integers is the binary64 number nearest to the exact
  quotient (ties to even, 53 significant bits, subnormal below \<open>2\<^sup>-\<^sup>1\<^sup>0\<^sup>2\<^sup>2\<close>); it raises
  \<^verbatim>\<open>ZeroDivisionError\<close> for \<^verbatim>\<open>b == 0\<close> and \<^verbatim>\<open>OverflowError\<close> when the rounded quotient
  does not fit. The zero quotient takes the sign of \<^verbatim>\<open>b\<close>. The conversion
  \<^verbatim>\<open>.2f\<close> rounds the exact value of the float to two decimals, ties to even, and keeps
  the sign of a negative zero; \<^verbatim>\<open>hundredths\<close> is the magnitude it prints, in hundredths.
\<close>

datatype pyfloat = PyFloat (fneg: bool) (fman: int) (fexp: int)

text \<open>
  The arithmetic is on \<^typ>\<open>int\<close>; the operands of \<^verbatim>\<open>round_div\<close>, \<^verbatim>\<open>bit_length\<close> and
  \<^verbatim>\<open>quot_exponent\<close> are never negative where they are used, and the divisor is positive.
\<close>

definition round_div :: "int \<Rightarrow> int \<Rightarrow> int" where
  "round_div a b =
     (let q = a div b; r = a mod b
      in if 2 * r < b then q else if b < 2 * r then q + 1 else if even q then q else q + 1)"

function bit_length :: "int \<Rightarrow> nat" where
  "bit_length n = (if n \<le> 0 then 0 else Suc (bit_length (n div 2)))"
  by pat_completeness auto
termination
  by (relation "measure nat") auto

declare bit_length.simps [simp del]

definition scaled_ge :: "int \<Rightarrow> int \<Rightarrow> int \<Rightarrow> bool" where
  "scaled_ge a b d \<longleftrightarrow> (if 0 \<le> d then b * 2 ^ nat d \<le> a else b \<le> a * 2 ^ nat (- d))"

definition quot_exponent :: "int \<Rightarrow> int \<Rightarrow> int" where
  "quot_exponent a b =
     (let d = int (bit_length a) - int (bit_length b) in if scaled_ge a b d then d else d - 1)"

definition true_divide :: "int \<Rightarrow> int \<Rightarrow> py_error + pyfloat" where
  "true_divide a b =
     (if b = 0 then Inl ZeroDivisionError
      else
        let neg = ((a < 0) \<noteq> (b < 0)); x = \<bar>a\<bar>; y = \<bar>b\<bar>
        in if x = 0 then Inr (PyFloat neg 0 0)
           else
             let e = quot_exponent x y;
                 s = max e (- 1022) - 52;
                 m = (if 0 \<le> s then round_div x (y * 2 ^ nat s)
                      else round_div (x * 2 ^ nat (- s)) y)
             in if 1023 < e \<or> (e = 1023 \<and> m = 2 ^ 53) then Inl OverflowError
                else Inr (PyFloat neg m s))"

definition hundredths :: "pyfloat \<Rightarrow> int" where
  "hundredths x =
     (if 0 \<le> fexp x then fman x * 2 ^ nat (fexp x) * 100
      else round_div (fman x * 100) (2 ^ nat (- fexp x)))"

definition format_2f :: "pyfloat \<Rightarrow> string" where
  "format_2f x =
     (let c = hundredths x
      in (if fneg x then ''-'' else []) @ str_nat (nat (c div 100)) @ ''.'' @
         [digit_chr (nat (c div 10 mod 10)), digit_chr (nat (c mod 10))])"

section \<open>The process environment\<close>

text \<open>
  Everything the module reads from or does to the outside is a field of \<^verbatim>\<open>world\<close>:
  \<^item> \<^verbatim>\<open>environ\<close> is \<^verbatim>\<open>os.environ\<close>, \<^verbatim>\<open>files\<close> the file system (path to content);
  \<^item> \<^verbatim>\<open>script_file\<close> is \<^verbatim>\<open>os.path.abspath(__file__)\<close>;
  \<^item> \<^verbatim>\<open>mpi_rank\<close> is what \<^verbatim>\<open>MPI.COMM_WORLD.Get_rank()\<close> returns, \<^const>\<open>None\<close> when
    \<^verbatim>\<open>mpi4py\<close> cannot be imported;
  \<^item> \<^verbatim>\<open>grep_stdout w pat path\<close> is the standard output of the external command
    \<^verbatim>\<open>grep pat path\<close>, before Python decodes it;
  \<^item> \<^verbatim>\<open>post_raises w url body\<close> tells whether \<^verbatim>\<open>requests.post(url, json=body)\<close> raises;
  \<^item> \<^verbatim>\<open>console\<close> collects the printed lines and \<^verbatim>\<open>posts\<close> the POST requests issued,
    each in the order of the calls.
  Opening a file for writing is taken to succeed: it sets the content at that path.
\<close>

type_synonym json_body = "(string \<times> string) list"

record world =
  environ :: "string \<rightharpoonup> string"
  files :: "string \<rightharpoonup> string"
  script_file :: string
  mpi_rank :: "int option"
  grep_stdout :: "string \<Rightarrow> string \<Rightarrow> string"
  post_raises :: "string \<Rightarrow> json_body \<Rightarrow> bool"
  console :: "string list"
  posts :: "(string \<times> json_body) list"

definition print_line :: "string \<Rightarrow> world \<Rightarrow> world" where
  "print_line s w = w\<lparr>console := console w @ [s]\<rparr>"

definition write_file :: "string \<Rightarrow> string \<Rightarrow> world \<Rightarrow> world" where
  "write_file path content w = w\<lparr>files := (files w)(path \<mapsto> content)\<rparr>"

text \<open>
  What \<^verbatim>\<open>grep pat path\<close> prints for a pattern without regular-expression operators on a
  text file: the lines that contain the pattern, each ended by a line feed, and nothing
  when the file is missing. The theorems hold for every \<^const>\<open>grep_stdout\<close>; this one
  serves the concrete runs.
\<close>

definition posix_grep :: "(string \<rightharpoonup> string) \<Rightarrow> string \<Rightarrow> string \<Rightarrow> string" where
  "posix_grep fs pat path =
     (case fs path of
        None \<Rightarrow> []
      | Some content \<Rightarrow> concat (map (\<lambda>l. l @ [CHR 0x0A]) (filter (sublist pat) (text_lines content))))"


section \<open>The class \<^verbatim>\<open>Indexer\<close>\<close>

text \<open>
  The attributes of an \<^verbatim>\<open>Indexer\<close> object. \<^verbatim>\<open>geom\<close> and \<^verbatim>\<open>cell\<close> are \<^verbatim>\<open>None\<close> when the command
  line leaves them out; \<^verbatim>\<open>tag_cxi\<close> is \<^verbatim>\<open>None\<close> until \<^verbatim>\<open>_retrieve_paths\<close> has normalised it.
\<close>

record indexer =
  exp :: string
  run :: int
  det_type :: string
  taskdir :: string
  tag :: string
  tag_cxi :: "string option"
  geom :: "string option"
  cell :: "string option"
  rad :: string
  methods :: string
  tolerance :: string
  no_revalidate :: bool
  multi :: bool
  profile :: bool
  lst :: string
  stream :: string
  tmp_exe :: string
  peakfinding_summary :: string
  indexing_summary :: string
  script_path :: string
  python_path :: string
  nproc :: string
  rank :: int

text \<open>\<^verbatim>\<open>_retrieve_paths\<close> (lines 51 to 71).\<close>

definition retrieve_paths :: "world \<Rightarrow> indexer \<Rightarrow> py_error + indexer" where
  "retrieve_paths w self =
     (let tc = (case tag_cxi self of
                  Some t \<Rightarrow> if t \<noteq> [] \<and> hd t \<noteq> CHR ''_'' then ''_'' @ t else t
                | None \<Rightarrow> []);
          r = format_04 (run self);
          self1 = self\<lparr>tag_cxi := Some tc,
                       lst := path_join (taskdir self) (''r'' @ r @ ''/r'' @ r @ tc @ ''.lst''),
                       stream := path_join (taskdir self) (''r'' @ r @ ''_'' @ tag self @ ''.stream''),
                       tmp_exe := (case environ w ''TMP_EXE'' of
                                     Some v \<Rightarrow> v
                                   | None \<Rightarrow> path_join (taskdir self)
                                               (''r'' @ r @ ''/index_r'' @ r @ ''.sh'')),
                       peakfinding_summary :=
                         path_join (taskdir self) (''r'' @ r @ ''/peakfinding'' @ tc @ ''.summary''),
                       indexing_summary :=
                         path_join (taskdir self)
                           (''r'' @ r @ ''/indexing_'' @ tag self @ ''.summary''),
                       script_path := script_file w\<rparr>
      in case environ w ''WHICHPYTHON'' of
           None \<Rightarrow> Inl (KeyError ''WHICHPYTHON'')
         | Some p \<Rightarrow> Inr (self1\<lparr>python_path := p\<rparr>))"

text \<open>\<^verbatim>\<open>_parallel_logic\<close> (lines 38 to 49).\<close>

definition parallel_logic :: "world \<Rightarrow> indexer \<Rightarrow> py_error + indexer" where
  "parallel_logic w self =
     (case environ w ''NCORES'' of
        None \<Rightarrow> Inl (KeyError ''NCORES'')
      | Some n \<Rightarrow>
          (case py_int n of
             Inl e \<Rightarrow> Inl e
           | Inr k \<Rightarrow>
               if k > 1 then
                 (case mpi_rank w of
                    None \<Rightarrow> Inl ImportError
                  | Some rk \<Rightarrow> Inr (self\<lparr>nproc := n, rank := rk\<rparr>))
               else Inr (self\<lparr>nproc := n, rank := 0\<rparr>)))"

text \<open>
  \<^verbatim>\<open>__init__\<close> (lines 14 to 36), with the arguments in the order of the signature. The
  attributes that the two helpers assign do not exist before they run; the record holds
  empty strings and rank 0 there until then.
\<close>

definition Indexer_init ::
  "world \<Rightarrow> string \<Rightarrow> int \<Rightarrow> string \<Rightarrow> string \<Rightarrow> string \<Rightarrow> string option \<Rightarrow> string option \<Rightarrow>
   string \<Rightarrow> string \<Rightarrow> string \<Rightarrow> string option \<Rightarrow> bool \<Rightarrow> bool \<Rightarrow> bool \<Rightarrow> py_error + indexer" where
  "Indexer_init w exp' run' det_type' tag' taskdir' geom' cell' int_rad methods' tolerance'
     tag_cxi' no_revalidate' multi' profile' =
     (let self = \<lparr>exp = exp', run = run', det_type = det_type', taskdir = taskdir', tag = tag',
                  tag_cxi = tag_cxi', geom = geom', cell = cell', rad = int_rad,
                  methods = methods', tolerance = tolerance', no_revalidate = no_revalidate',
                  multi = multi', profile = profile', lst = [], stream = [], tmp_exe = [],
                  peakfinding_summary = [], indexing_summary = [], script_path = [],
                  python_path = [], nproc = [], rank = 0\<rparr>
      in case retrieve_paths w self of
           Inl e \<Rightarrow> Inl e
         | Inr self1 \<Rightarrow> parallel_logic w self1)"

subsection \<open>\<^verbatim>\<open>write_exe\<close> (lines 73 to 91)\<close>

text \<open>The two local strings \<^verbatim>\<open>command\<close> and \<^verbatim>\<open>command_report\<close>.\<close>

definition command :: "indexer \<Rightarrow> string" where
  "command self =
     ''indexamajig -i '' @ lst self @ '' -o '' @ stream self @ '' -j '' @ nproc self @
     '' -g '' @ fstr_opt (geom self) @ '' --peaks=cxi --int-rad='' @ rad self @
     '' --indexing='' @ methods self @ '' --tolerance='' @ tolerance self @
     (case cell self of None \<Rightarrow> [] | Some c \<Rightarrow> '' --pdb='' @ c) @
     (if no_revalidate self then '' --no-revalidate'' else []) @
     (if multi self then '' --multi'' else []) @
     (if profile self then '' --profile'' else [])"

text \<open>The attributes whose text the f-strings of \<^verbatim>\<open>command\<close> put in, in their order.\<close>

definition command_values :: "indexer \<Rightarrow> string list" where
  "command_values self =
     [lst self, stream self, nproc self, fstr_opt (geom self), rad self, methods self,
      tolerance self] @ (case cell self of None \<Rightarrow> [] | Some c \<Rightarrow> [c])"

definition command_report :: "indexer \<Rightarrow> string" where
  "command_report self =
     python_path self @ '' '' @ script_path self @ '' -e '' @ exp self @
     '' -r '' @ str_int (run self) @ '' -d '' @ det_type self @
     '' --taskdir '' @ taskdir self @ '' --report --tag '' @ tag self @ '' '' @
     (if tag_cxi self \<noteq> Some [] then '' --tag_cxi '' @ fstr_opt (tag_cxi self) else [])"

definition write_exe :: "indexer \<Rightarrow> world \<Rightarrow> world" where
  "write_exe self w =
     (if rank self = 0 then
        print_line (''Indexing executable written to '' @ tmp_exe self)
          (write_file (tmp_exe self)
             (''#!/bin/bash\<newline>'' @ command self @ ''\<newline>'' @ command_report self @ ''\<newline>'') w)
      else w)"

subsection \<open>\<^verbatim>\<open>report\<close> (lines 93 to 140)\<close>

text \<open>Line 117: \<^verbatim>\<open>int(output.split(":")[1].split("\n")[0])\<close>.\<close>

definition parse_total :: "string \<Rightarrow> py_error + int" where
  "parse_total output =
     (case split_on (CHR '':'') output of
        a # b # rest \<Rightarrow> (case split_on (CHR 0x0A) b of [] \<Rightarrow> Inl IndexError | l # ls \<Rightarrow> py_int l)
      | _ \<Rightarrow> Inl IndexError)"

text \<open>
  Lines 130 and 131: the key is the text before the first colon of a line; the text
  between the first and the second colon, stripped of blanks and then of line feeds, is
  its entry, and a line without a colon raises \<^verbatim>\<open>IndexError\<close>.
\<close>

definition pf_key :: "string \<Rightarrow> string" where
  "pf_key item = (case split_on (CHR '':'') item of [] \<Rightarrow> [] | a # rest \<Rightarrow> a)"

definition pf_val :: "string \<Rightarrow> py_error + string" where
  "pf_val item =
     (case split_on (CHR '':'') item of
        a # b # rest \<Rightarrow> Inr (strip_chr (CHR 0x0A) (strip_chr (CHR '' '') b))
      | _ \<Rightarrow> Inl IndexError)"

fun collect :: "('a \<Rightarrow> py_error + 'b) \<Rightarrow> 'a list \<Rightarrow> py_error + 'b list" where
  "collect f [] = Inr []"
| "collect f (x # xs) =
     (case f x of
        Inl e \<Rightarrow> Inl e
      | Inr y \<Rightarrow> (case collect f xs of Inl e \<Rightarrow> Inl e | Inr ys \<Rightarrow> Inr (y # ys)))"

text \<open>
  Lines 104 to 108: the number of indexed patterns is the number of lines that \<^verbatim>\<open>grep\<close>
  prints for \<^verbatim>\<open>Cell parameters\<close> in the stream, counted as the pieces of the output before
  its last line feed. Lines 111 to 117: the number of hits is parsed from what \<^verbatim>\<open>grep\<close> prints
  for \<^verbatim>\<open>Number of hits found\<close> in the peak finding summary.
\<close>

definition n_indexed :: "indexer \<Rightarrow> world \<Rightarrow> nat" where
  "n_indexed self w =
     (let output = universal_newlines (grep_stdout w ''Cell parameters'' (stream self))
      in length (butlast (split_on (CHR 0x0A) output)))"

definition n_total :: "indexer \<Rightarrow> world \<Rightarrow> py_error + int" where
  "n_total self w =
     (let output = universal_newlines
                     (grep_stdout w ''Number of hits found'' (peakfinding_summary self))
      in parse_total output)"

text \<open>Lines 121 and 122: the two lines of the summary file.\<close>

definition summary_line1 :: "nat \<Rightarrow> string" where
  "summary_line1 n = ''Number of indexed events: '' @ str_nat n @ ''\<newline>''"

definition summary_line2 :: "pyfloat \<Rightarrow> string" where
  "summary_line2 rate = ''Fractional indexing rate rate: '' @ format_2f rate @ ''\<newline>''"

text \<open>
  Lines 134 to 138: the body of the request. The indices 0, 1 and 2 raise \<^verbatim>\<open>IndexError\<close>
  when the summary has fewer than three lines.
\<close>

definition elog_body :: "string list \<Rightarrow> string list \<Rightarrow> nat \<Rightarrow> pyfloat \<Rightarrow> py_error + json_body" where
  "elog_body pf_keys pf_vals n rate =
     (if length pf_keys < 3 \<or> length pf_vals < 3 then Inl IndexError
      else Inr [(pf_keys ! 0, pf_vals ! 0),
                (pf_keys ! 1, pf_vals ! 1),
                (pf_keys ! 2, pf_vals ! 2),
                (''Number of indexed events'', str_nat n),
                (''Fractional indexing rate'', format_2f rate)])"

definition elog_failure :: string where
  "elog_failure = ''Could not communicate with the elog update url''"

text \<open>
  The body of \<^verbatim>\<open>report\<close>. The first line of the summary is written before the rate of the
  second line is computed, so an exception of the division leaves a file with one line.
  The argument \<^verbatim>\<open>update_url\<close> is assigned from the environment before its first use.
  Inside \<^verbatim>\<open>try\<close> the five entries are built first and then posted; the bare \<^verbatim>\<open>except\<close> turns
  every exception of the two into the printed message. \<^const>\<open>posts\<close> records each call of
  \<^verbatim>\<open>requests.post\<close>, whether it raises or not.
\<close>

definition report :: "indexer \<Rightarrow> string option \<Rightarrow> world \<Rightarrow> (py_error + unit) \<times> world" where
  "report self update_url w =
     (if rank self = 0 then
        let n = n_indexed self w;
            total = n_total self w;
            w = print_line (peakfinding_summary self) w
        in case total of
             Inl e \<Rightarrow> (Inl e, w)
           | Inr t \<Rightarrow>
               (case true_divide (int n) t of
                  Inl e \<Rightarrow> (Inl e, write_file (indexing_summary self) (summary_line1 n) w)
                | Inr rate \<Rightarrow>
                    let w = write_file (indexing_summary self)
                              (summary_line1 n @ summary_line2 rate) w;
                        update_url = environ w ''JID_UPDATE_COUNTERS''
                    in case update_url of
                         None \<Rightarrow> (Inr (), w)
                       | Some url \<Rightarrow>
                           (case files w (peakfinding_summary self) of
                              None \<Rightarrow> (Inl FileNotFoundError, w)
                            | Some content \<Rightarrow>
                                let lines = take 3 (readlines content);
                                    pf_keys = map pf_key lines
                                in case collect pf_val lines of
                                     Inl e \<Rightarrow> (Inl e, w)
                                   | Inr pf_vals \<Rightarrow>
                                       (case elog_body pf_keys pf_vals n rate of
                                          Inl e \<Rightarrow> (Inr (), print_line elog_failure w)
                                        | Inr body \<Rightarrow>
                                            let w = w\<lparr>posts := posts w @ [(url, body)]\<rparr>
                                            in if post_raises w url body
                                               then (Inr (), print_line elog_failure w)
                                               else (Inr (), w))))
      else (Inr (), w))"

section \<open>The specification's path templates and a concrete run\<close>

text \<open>
  The two templates as the specification writes them,
  \<^verbatim>\<open>taskdir/r{run:04}/r{run:04}{tag_cxi}.lst\<close> and \<^verbatim>\<open>taskdir/r{run:04}_{tag}.stream\<close>, read
  as text with the three values put in.
\<close>

definition lst_template :: "string \<Rightarrow> int \<Rightarrow> string \<Rightarrow> string" where
  "lst_template td r tc = td @ ''/r'' @ format_04 r @ ''/r'' @ format_04 r @ tc @ ''.lst''"

definition stream_template :: "string \<Rightarrow> int \<Rightarrow> string \<Rightarrow> string" where
  "stream_template td r t = td @ ''/r'' @ format_04 r @ ''_'' @ t @ ''.stream''"

text \<open>
  Run 7 of an experiment with tag \<^verbatim>\<open>foo\<close> under \<^verbatim>\<open>/d\<close>, on one core: the stream holds 50
  indexed patterns and the peak finding summary reports 100 hits. In the second world the
  summary reports no hit, in the third every request to the elog fails, in the fourth
  the summary has a single line, in the fifth its second line has no colon, in the sixth
  it reports 3 hits, and in the last the run is on four cores, as rank 2.
\<close>

definition example_cell_line :: string where
  "example_cell_line = ''Cell parameters 7.9 7.9 3.8 nm, 90 90 90 deg''"

definition example_stream :: string where
  "example_stream = concat (replicate 50 (example_cell_line @ [CHR 0x0A]))"

definition example_summary :: string where
  "example_summary =
     ''Number of events processed: 250\<newline>Number of hits found: 100\<newline>'' @
     ''Fractional hit rate: 0.40\<newline>No. hits per rank: [50 50]\<newline>''"

definition zero_summary :: string where
  "zero_summary =
     ''Number of events processed: 250\<newline>Number of hits found: 0\<newline>'' @
     ''Fractional hit rate: 0.00\<newline>No. hits per rank: [0 0]\<newline>''"

definition short_summary :: string where
  "short_summary = ''Number of hits found: 100\<newline>''"

definition colonless_summary :: string where
  "colonless_summary = ''Number of hits found: 100\<newline>no hits per rank\<newline>''"

definition thirds_summary :: string where
  "thirds_summary =
     ''Number of events processed: 250\<newline>Number of hits found: 3\<newline>'' @
     ''Fractional hit rate: 0.01\<newline>''"

definition example_files :: "string \<Rightarrow> string \<rightharpoonup> string" where
  "example_files summary =
     [''/d/r0007_foo.stream'' \<mapsto> example_stream,
      ''/d/r0007/peakfinding.summary'' \<mapsto> summary]"

definition example_run :: "string \<Rightarrow> bool \<Rightarrow> world" where
  "example_run summary failing =
     \<lparr>environ = [''NCORES'' \<mapsto> ''1'', ''WHICHPYTHON'' \<mapsto> ''/usr/bin/python'',
                 ''JID_UPDATE_COUNTERS'' \<mapsto> ''https://elog/update''],
      files = example_files summary,
      script_file = ''/btx/processing/indexer.py'',
      mpi_rank = None,
      grep_stdout = posix_grep (example_files summary),
      post_raises = (\<lambda>url body. failing),
      console = [],
      posts = []\<rparr>"

definition example_world :: world where
  "example_world = example_run example_summary False"

definition zero_hits_world :: world where
  "zero_hits_world = example_run zero_summary False"

definition failing_world :: world where
  "failing_world = example_run example_summary True"

definition short_world :: world where
  "short_world = example_run short_summary False"

definition colonless_world :: world where
  "colonless_world = example_run colonless_summary False"

definition thirds_world :: world where
  "thirds_world = example_run thirds_summary False"

definition mpi_world :: world where
  "mpi_world = example_world\<lparr>environ := (environ example_world)(''NCORES'' \<mapsto> ''4''),
                            mpi_rank := Some 2\<rparr>"

definition example_indexer ::
  "world \<Rightarrow> string \<Rightarrow> string \<Rightarrow> string \<Rightarrow> string option \<Rightarrow> bool \<Rightarrow> py_error + indexer" where
  "example_indexer w t td m tc mu =
     Indexer_init w ''mfxp19619'' 7 ''epix10k2M'' t td (Some ''r0007.geom'') None
       ''4,5,6'' m ''5,5,5,1.5'' tc True mu True"

definition example_self :: indexer where
  "example_self =
     \<lparr>exp = ''mfxp19619'', run = 7, det_type = ''epix10k2M'', taskdir = ''/d'', tag = ''foo'',
      tag_cxi = Some [], geom = Some ''r0007.geom'', cell = None, rad = ''4,5,6'',
      methods = ''mosflm'', tolerance = ''5,5,5,1.5'', no_revalidate = True, multi = True,
      profile = True, lst = ''/d/r0007/r0007.lst'', stream = ''/d/r0007_foo.stream'',
      tmp_exe = ''/d/r0007/index_r0007.sh'',
      peakfinding_summary = ''/d/r0007/peakfinding.summary'',
      indexing_summary = ''/d/r0007/indexing_foo.summary'',
      script_path = ''/btx/processing/indexer.py'', python_path = ''/usr/bin/python'',
      nproc = ''1'', rank = 0\<rparr>"

section \<open>Facts about the primitives\<close>

lemma startswith_r [simp]: "\<not> startswith (CHR ''r'' # xs) ''/''"
  by (simp add: startswith_def)

lemma endswith_slash: "endswith a ''/'' \<longleftrightarrow> a \<noteq> [] \<and> last a = CHR ''/''"
  by (cases a rule: rev_cases) (auto simp: endswith_def)

lemma path_join_relative:
  "path_join a (CHR ''r'' # xs) =
     (if a = [] \<or> last a = CHR ''/'' then a @ CHR ''r'' # xs else a @ CHR ''/'' # CHR ''r'' # xs)"
  by (auto simp: path_join_def endswith_slash)

lemma split_on_line:
  "c \<notin> set l \<Longrightarrow> split_on c (l @ c # rest) = l # split_on c rest"
  by (induction l) auto

lemma universal_newlines_id: "CHR 0x0D \<notin> set s \<Longrightarrow> universal_newlines s = s"
  by (induction s rule: universal_newlines.induct) auto

lemma split_on_replicate:
  "c \<notin> set l \<Longrightarrow> split_on c (concat (replicate k (l @ [c]))) = replicate k l @ [[]]"
  by (induction k) (simp_all add: split_on_line)

lemma text_lines_replicate:
  "CHR 0x0A \<notin> set l \<Longrightarrow> text_lines (concat (replicate k (l @ [CHR 0x0A]))) = replicate k l"
  by (simp add: text_lines_def split_on_replicate)

lemma text_lines_one:
  assumes "CHR 0x0A \<notin> set a"
  shows "text_lines (a @ [CHR 0x0A]) = [a]"
  using assms by (simp add: text_lines_def split_on_line)

lemma text_lines_two:
  assumes "CHR 0x0A \<notin> set a" and "CHR 0x0A \<notin> set b"
  shows "text_lines (a @ CHR 0x0A # b @ [CHR 0x0A]) = [a, b]"
  using assms by (simp add: text_lines_def split_on_line)

lemma text_lines_three:
  assumes "CHR 0x0A \<notin> set a" and "CHR 0x0A \<notin> set b" and "CHR 0x0A \<notin> set c"
  shows "text_lines (a @ CHR 0x0A # b @ CHR 0x0A # c @ [CHR 0x0A]) = [a, b, c]"
  using assms by (simp add: text_lines_def split_on_line)

lemma posix_grep_replicate:
  assumes "fs path = Some (concat (replicate k (l @ [CHR 0x0A])))"
    and "CHR 0x0A \<notin> set l" and "sublist pat l"
  shows "posix_grep fs pat path = concat (replicate k (l @ [CHR 0x0A]))"
  using assms by (simp add: posix_grep_def text_lines_replicate)

text \<open>The decimal texts hold digits, a sign and a point, and so no line feed.\<close>

lemma digit_chr_digit: "d < 10 \<Longrightarrow> digit_chr d \<in> set ''0123456789''"
  unfolding digit_chr_def by (rule nth_mem) simp

lemma str_nat_digits: "set (str_nat n) \<subseteq> set ''0123456789''"
proof (induction n rule: str_nat.induct)
  case (1 n)
  show ?case
  proof (cases "n < 10")
    case True
    then show ?thesis
      using digit_chr_digit[of n] by (subst str_nat.simps) simp
  next
    case False
    then show ?thesis
      using 1 digit_chr_digit[of "n mod 10"] by (subst str_nat.simps) simp
  qed
qed

lemma str_nat_no_newline: "CHR 0x0A \<notin> set (str_nat n)"
  using str_nat_digits[of n] by auto

lemma digit_chr_no_newline: "d < 10 \<Longrightarrow> digit_chr d \<noteq> CHR 0x0A"
  using digit_chr_digit[of d] by auto

lemma format_2f_no_newline: "CHR 0x0A \<notin> set (format_2f x)"
proof -
  have "CHR 0x0A \<noteq> digit_chr (nat (c mod 10))" for c :: int
    using digit_chr_no_newline[of "nat (c mod 10)"] by (simp add: nat_less_iff)
  then show ?thesis
    by (simp add: format_2f_def Let_def str_nat_no_newline)
qed

lemma format_2f_two_decimals:
  "\<exists>a d1 d2. format_2f x = a @ [CHR ''.'', d1, d2] \<and> is_digit d1 \<and> is_digit d2"
proof -
  have "is_digit (digit_chr (nat (c mod 10)))" for c :: int
    unfolding is_digit_def by (rule digit_chr_digit) (simp add: nat_less_iff)
  then show ?thesis
    unfolding format_2f_def Let_def by (metis append.assoc append_Cons append_Nil)
qed

lemma summary_lines:
  "text_lines (summary_line1 n @ summary_line2 rate) =
     [''Number of indexed events: '' @ str_nat n,
      ''Fractional indexing rate rate: '' @ format_2f rate]"
  using text_lines_two[of "''Number of indexed events: '' @ str_nat n"
      "''Fractional indexing rate rate: '' @ format_2f rate"]
  by (simp add: summary_line1_def summary_line2_def str_nat_no_newline format_2f_no_newline)

text \<open>
  Rounding: \<^const>\<open>round_div\<close> is within one half of the quotient, \<^const>\<open>quot_exponent\<close> is a
  power of two below the quotient, and so the hundredths that \<^const>\<open>format_2f\<close> prints for
  \<^verbatim>\<open>a / b\<close> are within \<open>1/2 + 100 \<sqdot> (a/\<bar>b\<bar>) / 2\<^sup>5\<^sup>3 + 100 / 2\<^sup>1\<^sup>0\<^sup>7\<^sup>5\<close> of \<open>100 \<sqdot> a/\<bar>b\<bar>\<close>. The
  inequality is stated with both sides multiplied by \<open>2\<^sup>1\<^sup>0\<^sup>7\<^sup>5 \<sqdot> \<bar>b\<bar>\<close>.
\<close>

lemma round_div_near:
  fixes a b :: int
  assumes "0 < b"
  shows "2 * \<bar>round_div a b * b - a\<bar> \<le> b"
proof -
  define q where "q = a div b"
  define r where "r = a mod b"
  have a: "a = q * b + r"
    by (simp add: q_def r_def)
  have r: "0 \<le> r" "r < b"
    using assms by (simp_all add: r_def)
  show ?thesis
    using r unfolding round_div_def Let_def q_def[symmetric] r_def[symmetric] a
    by (auto simp: algebra_simps)
qed

lemma bit_length_bounds:
  "0 < a \<Longrightarrow> 2 ^ (bit_length a - 1) \<le> a \<and> a < 2 ^ bit_length a"
proof (induction a rule: bit_length.induct)
  case (1 n)
  show ?case
  proof (cases "n = 1")
    case True
    then show ?thesis
      by (simp add: bit_length.simps[of 1] bit_length.simps[of 0])
  next
    case False
    with 1(2) have h: "0 < n div 2" by simp
    have ih: "2 ^ (bit_length (n div 2) - 1) \<le> n div 2" "n div 2 < 2 ^ bit_length (n div 2)"
      using 1(1) h 1(2) by simp_all
    have pos: "0 < bit_length (n div 2)"
      using h by (subst bit_length.simps) simp
    have bl: "bit_length n = Suc (bit_length (n div 2))"
      using 1(2) by (subst bit_length.simps) simp
    define P :: int where "P = 2 ^ (bit_length (n div 2) - 1)"
    have half: "2 ^ bit_length (n div 2) = 2 * P"
      using pos unfolding P_def by (cases "bit_length (n div 2)") simp_all
    have "2 ^ (bit_length n - 1) = 2 * P" "2 ^ bit_length n = 4 * P"
      by (simp_all add: bl half)
    moreover have "P \<le> n div 2" "n div 2 < 2 * P"
      using ih unfolding half by (simp_all add: P_def)
    moreover have "2 * (n div 2) \<le> n" "n < 2 * (n div 2) + 2"
      by linarith+
    ultimately show ?thesis
      by (simp only:) linarith
  qed
qed

lemma quot_exponent_lower:
  assumes "0 < x" and "0 < y"
  shows "scaled_ge x y (quot_exponent x y)"
proof (cases "scaled_ge x y (int (bit_length x) - int (bit_length y))")
  case True
  then show ?thesis
    by (simp add: quot_exponent_def)
next
  case False
  define bx where "bx = bit_length x"
  define by' where "by' = bit_length y"
  have e: "quot_exponent x y = int bx - int by' - 1"
    using False by (simp add: quot_exponent_def bx_def by'_def)
  have x: "2 ^ (bx - 1) \<le> x" and y: "y < 2 ^ by'"
    using bit_length_bounds[OF assms(1)] bit_length_bounds[OF assms(2)]
    by (simp_all add: bx_def by'_def)
  have bxpos: "0 < bx"
    using assms(1) unfolding bx_def by (subst bit_length.simps) simp
  show ?thesis
  proof (cases "0 \<le> int bx - int by' - 1")
    case True
    then have k: "bx - 1 = by' + nat (int bx - int by' - 1)"
      by linarith
    have "y * 2 ^ nat (int bx - int by' - 1) \<le> 2 ^ by' * 2 ^ nat (int bx - int by' - 1)"
      using y by (simp add: mult_right_mono)
    also have "\<dots> = 2 ^ (by' + nat (int bx - int by' - 1))"
      by (simp add: power_add)
    also have "\<dots> = 2 ^ (bx - 1)"
      using k by simp
    finally show ?thesis
      using x True by (simp add: e scaled_ge_def)
  next
    case False
    then have k: "by' = (bx - 1) + nat (- (int bx - int by' - 1))"
      using bxpos by linarith
    have "y \<le> 2 ^ by'"
      using y by simp
    also have "\<dots> = 2 ^ ((bx - 1) + nat (- (int bx - int by' - 1)))"
      using k by simp
    also have "\<dots> = 2 ^ (bx - 1) * 2 ^ nat (- (int bx - int by' - 1))"
      by (simp only: power_add)
    also have "\<dots> \<le> x * 2 ^ nat (- (int bx - int by' - 1))"
      using x by (simp add: mult_right_mono)
    finally show ?thesis
      using False by (simp add: e scaled_ge_def)
  qed
qed

lemma rate_accuracy:
  assumes "0 \<le> a" and "true_divide a b = Inr x"
  shows "2 ^ 1075 * \<bar>hundredths x * \<bar>b\<bar> - 100 * a\<bar> \<le>
           2 ^ 1074 * \<bar>b\<bar> + 100 * 2 ^ 1022 * a + 100 * \<bar>b\<bar>"
proof (cases "a = 0")
  case True
  then have "hundredths x = 0"
    using assms(2) by (auto simp: true_divide_def hundredths_def split: if_splits)
  then show ?thesis
    using True by simp
next
  case False
  with assms(1) have apos: "0 < a" by simp
  have bnz: "b \<noteq> 0"
    using assms(2) by (auto simp: true_divide_def)
  define y where "y = \<bar>b\<bar>"
  define e where "e = quot_exponent a y"
  define s where "s = max e (- 1022) - 52"
  define m where
    "m = (if 0 \<le> s then round_div a (y * 2 ^ nat s) else round_div (a * 2 ^ nat (- s)) y)"
  define T :: int where "T = 2 ^ 1022"
  have ypos: "0 < y"
    using bnz by (simp add: y_def)
  have Tpos: "0 < T"
    by (simp add: T_def)
  have T: "(2::int) ^ 1075 = 2 ^ 53 * T" "(2::int) ^ 1074 = 2 ^ 52 * T"
    by (simp_all add: T_def flip: power_add)
  have x: "fman x = m" "fexp x = s"
    using assms(2) apos bnz
    by (auto simp: true_divide_def Let_def y_def e_def s_def m_def split: if_splits)
  have qe: "scaled_ge a y e"
    unfolding e_def by (rule quot_exponent_lower[OF apos ypos])
  show ?thesis
  proof (cases "0 \<le> s")
    case True
    define S :: int where "S = 2 ^ nat s"
    have Spos: "0 < S"
      by (simp add: S_def)
    have e52: "e = s + 52"
      using True by (simp add: s_def max_def split: if_splits)
    have "nat e = 52 + nat s"
      using True e52 by simp
    then have pe: "(2::int) ^ nat e = 2 ^ 52 * S"
      by (simp add: S_def power_add)
    have "y * 2 ^ nat e \<le> a"
      using qe True e52 by (simp add: scaled_ge_def)
    then have low: "y * (2 ^ 52 * S) \<le> a"
      by (simp only: pe)
    have m: "m = round_div a (y * S)"
      using True by (simp add: m_def S_def)
    have near: "2 * \<bar>m * (y * S) - a\<bar> \<le> y * S"
      unfolding m using ypos Spos by (intro round_div_near) simp
    have h: "hundredths x = m * S * 100"
      using True by (simp add: hundredths_def x S_def)
    have "hundredths x * y - 100 * a = 100 * (m * (y * S) - a)"
      unfolding h by (simp add: algebra_simps)
    then have "\<bar>hundredths x * y - 100 * a\<bar> = 100 * \<bar>m * (y * S) - a\<bar>"
      by (simp only: abs_mult abs_numeral)
    then have "2 ^ 53 * T * \<bar>hundredths x * y - 100 * a\<bar> = (2 ^ 52 * T * 100) * (2 * \<bar>m * (y * S) - a\<bar>)"
      by simp
    also have "\<dots> \<le> (2 ^ 52 * T * 100) * (y * S)"
      using near Tpos by (intro mult_left_mono) simp_all
    also have "\<dots> = 100 * T * (y * (2 ^ 52 * S))"
      by simp
    also have "\<dots> \<le> 100 * T * a"
      using low Tpos by (intro mult_left_mono) simp_all
    also have "\<dots> \<le> 2 ^ 52 * T * y + 100 * T * a + 100 * y"
      using Tpos ypos by simp
    finally show ?thesis
      unfolding T y_def[symmetric] T_def[symmetric] .
  next
    case False
    define K :: int where "K = 2 ^ nat (- s)"
    have Kpos: "0 < K"
      by (simp add: K_def)
    have m: "m = round_div (a * K) y"
      using False by (simp add: m_def K_def)
    have near1: "2 * \<bar>m * y - a * K\<bar> \<le> y"
      unfolding m using ypos by (rule round_div_near)
    define C where "C = hundredths x"
    have C: "C = round_div (m * 100) K"
      using False by (simp add: C_def hundredths_def x K_def)
    have near2: "2 * \<bar>C * K - m * 100\<bar> \<le> K"
      unfolding C using Kpos by (rule round_div_near)
    have split: "K * (C * y - 100 * a) = (C * K - m * 100) * y + 100 * (m * y - a * K)"
      by (simp add: algebra_simps)
    have "K * \<bar>C * y - 100 * a\<bar> = \<bar>K * (C * y - 100 * a)\<bar>"
      using Kpos by (simp add: abs_mult)
    also have "\<dots> = \<bar>(C * K - m * 100) * y + 100 * (m * y - a * K)\<bar>"
      by (simp only: split)
    also have "\<dots> \<le> \<bar>(C * K - m * 100) * y\<bar> + \<bar>100 * (m * y - a * K)\<bar>"
      by (rule abs_triangle_ineq)
    also have "\<dots> = \<bar>C * K - m * 100\<bar> * y + 100 * \<bar>m * y - a * K\<bar>"
      using ypos by (simp only: abs_mult abs_numeral abs_of_pos)
    finally have "K * \<bar>C * y - 100 * a\<bar> \<le>
        \<bar>C * K - m * 100\<bar> * y + 100 * \<bar>m * y - a * K\<bar>" .
    then have tri: "2 * (K * \<bar>C * y - 100 * a\<bar>) \<le> K * y + 100 * y"
    proof -
      assume t: "K * \<bar>C * y - 100 * a\<bar> \<le> \<bar>C * K - m * 100\<bar> * y + 100 * \<bar>m * y - a * K\<bar>"
      have "2 * \<bar>C * K - m * 100\<bar> * y \<le> K * y"
        using near2 ypos by (simp add: mult_right_mono)
      moreover have "100 * (2 * \<bar>m * y - a * K\<bar>) \<le> 100 * y"
        using near1 by simp
      ultimately show ?thesis
        using t by (simp add: algebra_simps)
    qed
    have key: "2 ^ 52 * T * y \<le> K * (T * a + y)"
    proof (cases "e < - 1022")
      case True
      then have "s = - 1074"
        by (simp add: s_def)
      then have "K = 2 ^ 52 * T"
        by (simp add: K_def T_def)
      then show ?thesis
        using Tpos apos ypos by (simp add: distrib_left)
    next
      case False
      then have se: "s = e - 52"
        by (simp add: s_def)
      have "2 ^ 52 * y \<le> K * a"
      proof (cases "0 \<le> e")
        case True
        have "52 = nat (- s) + nat e"
          using True se \<open>\<not> 0 \<le> s\<close> by simp
        then have p: "(2::int) ^ 52 = K * 2 ^ nat e"
          by (simp add: K_def flip: power_add)
        have "y * 2 ^ nat e \<le> a"
          using qe True by (simp add: scaled_ge_def)
        then have le: "K * (y * 2 ^ nat e) \<le> K * a"
          using Kpos by (simp add: mult_left_mono)
        have "2 ^ 52 * y = (K * 2 ^ nat e) * y"
          by (simp only: p[symmetric])
        also have "\<dots> = K * (y * 2 ^ nat e)"
          by (simp only: ac_simps)
        also note le
        finally show ?thesis .
      next
        case False
        then have "nat (- s) = 52 + nat (- e)"
          using se by simp
        then have k: "K = 2 ^ 52 * 2 ^ nat (- e)"
          by (simp only: K_def power_add)
        have "y \<le> a * 2 ^ nat (- e)"
          using qe False by (simp add: scaled_ge_def)
        then have "2 ^ 52 * y \<le> 2 ^ 52 * (a * 2 ^ nat (- e))"
          by (intro mult_left_mono) simp_all
        also have "\<dots> = (2 ^ 52 * 2 ^ nat (- e)) * a"
          by (simp only: ac_simps)
        also have "\<dots> = K * a"
          by (simp only: k)
        finally show ?thesis .
      qed
      then have "T * (2 ^ 52 * y) \<le> T * (K * a)"
        using Tpos by (simp add: mult_left_mono)
      also have "\<dots> \<le> K * (T * a + y)"
        using Kpos ypos by (simp add: algebra_simps)
      finally show ?thesis
        by (simp add: mult.commute mult.left_commute)
    qed
    have "K * (2 ^ 53 * T * \<bar>C * y - 100 * a\<bar>) = 2 ^ 52 * T * (2 * (K * \<bar>C * y - 100 * a\<bar>))"
      by simp
    also have "\<dots> \<le> 2 ^ 52 * T * (K * y + 100 * y)"
      using tri Tpos by (intro mult_left_mono) simp_all
    also have "\<dots> = K * (2 ^ 52 * T * y) + 100 * (2 ^ 52 * T * y)"
      by (simp add: algebra_simps)
    also have "\<dots> \<le> K * (2 ^ 52 * T * y) + 100 * (K * (T * a + y))"
      using key by simp
    also have "\<dots> = K * (2 ^ 52 * T * y + 100 * T * a + 100 * y)"
      by (simp add: algebra_simps)
    finally have "2 ^ 53 * T * \<bar>C * y - 100 * a\<bar> \<le> 2 ^ 52 * T * y + 100 * T * a + 100 * y"
      using Kpos by (simp only: mult_le_cancel_left_pos)
    then show ?thesis
      unfolding T y_def[symmetric] T_def[symmetric] C_def .
  qed
qed

lemma round_div_nonneg: "0 \<le> a \<Longrightarrow> 0 < b \<Longrightarrow> 0 \<le> round_div a b"
  by (simp add: round_div_def Let_def pos_imp_zdiv_nonneg_iff)

lemma rate_sign:
  assumes "0 \<le> a" and "true_divide a b = Inr x"
  shows "fneg x \<longleftrightarrow> b < 0" and "0 \<le> hundredths x"
proof -
  have b: "b \<noteq> 0"
    using assms(2) by (auto simp: true_divide_def)
  show "fneg x \<longleftrightarrow> b < 0"
    using assms b by (auto simp: true_divide_def Let_def split: if_splits)
  have "0 \<le> fman x"
    using assms b
    by (auto simp: true_divide_def Let_def round_div_nonneg split: if_splits)
  then show "0 \<le> hundredths x"
    by (simp add: hundredths_def round_div_nonneg)
qed

text \<open>A text without a character of its own does not reach across that character.\<close>

lemma sublist_split_at:
  assumes "c \<notin> set p"
  shows "sublist p (xs @ c # ys) \<longleftrightarrow> sublist p xs \<or> sublist p ys"
proof
  assume "sublist p (xs @ c # ys)"
  then consider "sublist p xs" | "sublist p (c # ys)"
    | p1 p2 where "p = p1 @ p2" "suffix p1 xs" "prefix p2 (c # ys)"
    by (auto simp: sublist_append)
  then show "sublist p xs \<or> sublist p ys"
  proof cases
    case 1
    then show ?thesis by simp
  next
    case 2
    then show ?thesis
      using assms by (auto simp: sublist_Cons_right prefix_Cons)
  next
    case 3
    then show ?thesis
      using assms by (cases p2) (auto simp: prefix_Cons)
  qed
next
  assume "sublist p xs \<or> sublist p ys"
  then show "sublist p (xs @ c # ys)"
    by (auto simp: sublist_append sublist_Cons_right)
qed

text \<open>
  The division returns whenever the divisor is not zero and the dividend is below
  \<open>2\<^sup>1\<^sup>0\<^sup>2\<^sup>3\<close>: the quotient is then in the range of a float.
\<close>

lemma bit_length_pos: "0 < a \<Longrightarrow> 0 < bit_length a"
  by (subst bit_length.simps) simp

lemma bit_length_le:
  assumes "0 < a" and "a < 2 ^ k"
  shows "bit_length a \<le> k"
proof (rule ccontr)
  assume "\<not> bit_length a \<le> k"
  then have "k \<le> bit_length a - 1"
    by simp
  then have "(2::int) ^ k \<le> 2 ^ (bit_length a - 1)"
    by (rule power_increasing) simp
  also have "\<dots> \<le> a"
    using bit_length_bounds[OF assms(1)] by simp
  finally show False
    using assms(2) by simp
qed

lemma quot_exponent_small:
  assumes "0 < x" and "x < 2 ^ 1023" and "0 < y"
  shows "quot_exponent x y < 1023"
proof -
  have bx: "bit_length x \<le> 1023"
    using assms(1,2) by (rule bit_length_le)
  have by': "0 < bit_length y"
    using assms(3) by (rule bit_length_pos)
  then show ?thesis
    using bx by (simp add: quot_exponent_def Let_def)
qed

lemma true_divide_returns:
  assumes "0 \<le> a" and "a < 2 ^ 1023" and "b \<noteq> 0"
  shows "\<exists>x. true_divide a b = Inr x"
proof (cases "a = 0")
  case True
  then show ?thesis
    using assms(3) by (simp add: true_divide_def)
next
  case False
  then have "quot_exponent \<bar>a\<bar> \<bar>b\<bar> < 1023"
    using assms by (intro quot_exponent_small) simp_all
  then show ?thesis
    using assms(3) False by (simp add: true_divide_def Let_def)
qed

text \<open>The pieces of a split, and the lines of a text that ends with a line feed.\<close>

lemma split_on_not_Nil [simp]: "split_on c s \<noteq> []"
  by (induction s) (auto split: list.splits)

lemma length_split_on: "length (split_on c s) = Suc (length (filter (\<lambda>x. x = c) s))"
proof (induction s)
  case Nil
  show ?case by simp
next
  case (Cons x s)
  then show ?case
    by (cases "split_on c s") auto
qed

lemma last_split_on_snoc: "last (split_on c (s @ [c])) = []"
proof (induction s)
  case Nil
  show ?case by simp
next
  case (Cons x s)
  have "2 \<le> length (split_on c (s @ [c]))"
    by (simp add: length_split_on)
  then obtain p q ps where "split_on c (s @ [c]) = p # q # ps"
    by (cases "split_on c (s @ [c])"; cases "tl (split_on c (s @ [c]))") auto
  then show ?case
    using Cons by auto
qed

lemma text_lines_Cons:
  assumes "CHR 0x0A \<notin> set l"
  shows "text_lines (l @ CHR 0x0A # rest) = l # text_lines rest"
proof -
  obtain p ps where "split_on (CHR 0x0A) rest = p # ps"
    by (cases "split_on (CHR 0x0A) rest") auto
  then show ?thesis
    using assms by (simp add: text_lines_def split_on_line Let_def)
qed

lemma length_text_lines_terminated:
  "length (text_lines (s @ [CHR 0x0A])) = Suc (length (filter (\<lambda>x. x = CHR 0x0A) s))"
  by (simp add: text_lines_def last_split_on_snoc length_split_on)

lemma script_lines:
  "\<exists>more. text_lines (''#!/bin/bash\<newline>'' @ a @ ''\<newline>'' @ b @ ''\<newline>'') = ''#!/bin/bash'' # more \<and>
     2 \<le> length more"
proof -
  have "text_lines (''#!/bin/bash'' @ CHR 0x0A # (a @ CHR 0x0A # b) @ [CHR 0x0A]) =
      ''#!/bin/bash'' # text_lines ((a @ CHR 0x0A # b) @ [CHR 0x0A])"
    by (rule text_lines_Cons) simp
  moreover have "2 \<le> length (text_lines ((a @ CHR 0x0A # b) @ [CHR 0x0A]))"
    unfolding length_text_lines_terminated by simp
  ultimately show ?thesis
    by simp
qed

section \<open>Facts about the constructor and the two methods\<close>

lemma parallel_logic_Inr:
  "parallel_logic w s = Inr self \<Longrightarrow> \<exists>n rk. self = s\<lparr>nproc := n, rank := rk\<rparr>"
  by (auto simp: parallel_logic_def split: option.splits sum.splits if_splits)

lemma retrieve_paths_Inr:
  assumes "retrieve_paths w s = Inr s'"
  shows "tag_cxi s' =
           Some (case tag_cxi s of
                   Some t \<Rightarrow> if t \<noteq> [] \<and> hd t \<noteq> CHR ''_'' then ''_'' @ t else t
                 | None \<Rightarrow> [])"
    and "lst s' =
           path_join (taskdir s)
             (''r'' @ format_04 (run s) @ ''/r'' @ format_04 (run s) @ fstr_opt (tag_cxi s') @ ''.lst'')"
    and "stream s' = path_join (taskdir s) (''r'' @ format_04 (run s) @ ''_'' @ tag s @ ''.stream'')"
    and "peakfinding_summary s' =
           path_join (taskdir s)
             (''r'' @ format_04 (run s) @ ''/peakfinding'' @ fstr_opt (tag_cxi s') @ ''.summary'')"
    and "indexing_summary s' =
           path_join (taskdir s) (''r'' @ format_04 (run s) @ ''/indexing_'' @ tag s @ ''.summary'')"
  using assms
  by (auto simp: retrieve_paths_def Let_def fstr_opt_def split: option.splits)

lemma Indexer_init_Inr:
  assumes "Indexer_init w e r d t td g c ir m tol tc nr mu pr = Inr self"
  shows "tag_cxi self =
           Some (case tc of
                   Some s \<Rightarrow> if s \<noteq> [] \<and> hd s \<noteq> CHR ''_'' then ''_'' @ s else s
                 | None \<Rightarrow> [])"
    and "lst self =
           path_join td (''r'' @ format_04 r @ ''/r'' @ format_04 r @ fstr_opt (tag_cxi self) @ ''.lst'')"
    and "stream self = path_join td (''r'' @ format_04 r @ ''_'' @ t @ ''.stream'')"
    and "peakfinding_summary self =
           path_join td (''r'' @ format_04 r @ ''/peakfinding'' @ fstr_opt (tag_cxi self) @ ''.summary'')"
    and "indexing_summary self =
           path_join td (''r'' @ format_04 r @ ''/indexing_'' @ t @ ''.summary'')"
proof -
  obtain s' where s': "retrieve_paths w
      \<lparr>exp = e, run = r, det_type = d, taskdir = td, tag = t, tag_cxi = tc, geom = g, cell = c,
       rad = ir, methods = m, tolerance = tol, no_revalidate = nr, multi = mu, profile = pr,
       lst = [], stream = [], tmp_exe = [], peakfinding_summary = [], indexing_summary = [],
       script_path = [], python_path = [], nproc = [], rank = 0\<rparr> = Inr s'"
    and "parallel_logic w s' = Inr self"
    using assms by (auto simp: Indexer_init_def split: sum.splits)
  then obtain n rk where self: "self = s'\<lparr>nproc := n, rank := rk\<rparr>"
    using parallel_logic_Inr by blast
  note f = retrieve_paths_Inr[OF s']
  show "tag_cxi self =
           Some (case tc of
                   Some s \<Rightarrow> if s \<noteq> [] \<and> hd s \<noteq> CHR ''_'' then ''_'' @ s else s
                 | None \<Rightarrow> [])"
    using f(1) by (simp add: self)
  show "lst self =
           path_join td (''r'' @ format_04 r @ ''/r'' @ format_04 r @ fstr_opt (tag_cxi self) @ ''.lst'')"
    using f(2) by (simp add: self)
  show "stream self = path_join td (''r'' @ format_04 r @ ''_'' @ t @ ''.stream'')"
    using f(3) by (simp add: self)
  show "peakfinding_summary self =
           path_join td (''r'' @ format_04 r @ ''/peakfinding'' @ fstr_opt (tag_cxi self) @ ''.summary'')"
    using f(4) by (simp add: self)
  show "indexing_summary self =
           path_join td (''r'' @ format_04 r @ ''/indexing_'' @ t @ ''.summary'')"
    using f(5) by (simp add: self)
qed

text \<open>The two summaries of a constructed \<^verbatim>\<open>Indexer\<close> are different files.\<close>

lemma Indexer_init_summaries:
  assumes "Indexer_init w e r d t td g c ir m tol tc nr mu pr = Inr self"
  shows "indexing_summary self \<noteq> peakfinding_summary self"
  using Indexer_init_Inr(4,5)[OF assms] by (simp add: path_join_relative)

lemma command_no_multi:
  assumes "\<not> multi self" and "\<forall>v \<in> set (command_values self). \<not> sublist ''--multi'' v"
  shows "\<not> sublist ''--multi'' (command self)"
  using assms
  by (cases "cell self"; cases "no_revalidate self"; cases "profile self")
     (simp_all add: command_def command_values_def sublist_Cons_right sublist_split_at)

lemma command_no_pdb:
  assumes "cell self = None" and "\<forall>v \<in> set (command_values self). \<not> sublist ''--pdb='' v"
  shows "\<not> sublist ''--pdb='' (command self)"
  using assms
  by (cases "multi self"; cases "no_revalidate self"; cases "profile self")
     (simp_all add: command_def command_values_def sublist_Cons_right sublist_split_at)

lemma command_has_multi:
  assumes "multi self"
  shows "sublist ''--multi'' (command self)"
proof -
  obtain a b where "command self = a @ ''--multi'' @ b"
  proof
    show "command self =
      (''indexamajig -i '' @ lst self @ '' -o '' @ stream self @ '' -j '' @ nproc self @
       '' -g '' @ fstr_opt (geom self) @ '' --peaks=cxi --int-rad='' @ rad self @
       '' --indexing='' @ methods self @ '' --tolerance='' @ tolerance self @
       (case cell self of None \<Rightarrow> [] | Some c \<Rightarrow> '' --pdb='' @ c) @
       (if no_revalidate self then '' --no-revalidate'' else []) @ '' '') @ ''--multi'' @
       (if profile self then '' --profile'' else [])"
      using assms by (simp add: command_def)
  qed
  then show ?thesis
    by (metis sublist_appendI)
qed

lemma command_has_pdb:
  assumes "cell self = Some c"
  shows "sublist (''--pdb='' @ c) (command self)"
proof -
  obtain a b where "command self = a @ (''--pdb='' @ c) @ b"
  proof
    show "command self =
      (''indexamajig -i '' @ lst self @ '' -o '' @ stream self @ '' -j '' @ nproc self @
       '' -g '' @ fstr_opt (geom self) @ '' --peaks=cxi --int-rad='' @ rad self @
       '' --indexing='' @ methods self @ '' --tolerance='' @ tolerance self @ '' '') @
       (''--pdb='' @ c) @
       ((if no_revalidate self then '' --no-revalidate'' else []) @
        (if multi self then '' --multi'' else []) @
        (if profile self then '' --profile'' else []))"
      using assms by (simp add: command_def)
  qed
  then show ?thesis
    by (metis sublist_appendI)
qed

lemma report_files:
  assumes "rank self = 0" and "n_total self w = Inr t"
    and "true_divide (int (n_indexed self w)) t = Inr rate"
  shows "files (snd (report self u w)) =
           (files w)(indexing_summary self \<mapsto>
              summary_line1 (n_indexed self w) @ summary_line2 rate)"
  using assms
  by (simp add: report_def Let_def write_file_def print_line_def elog_body_def
      split: option.splits sum.splits)

lemma report_reaches_post:
  assumes "rank self = 0"
    and "n_total self w = Inr t"
    and "true_divide (int (n_indexed self w)) t = Inr rate"
    and "environ w ''JID_UPDATE_COUNTERS'' = Some url"
    and "indexing_summary self \<noteq> peakfinding_summary self"
    and "files w (peakfinding_summary self) = Some content"
    and "readlines content = l1 # l2 # l3 # rest"
    and "pf_val l1 = Inr v1" and "pf_val l2 = Inr v2" and "pf_val l3 = Inr v3"
    and "body = [(pf_key l1, v1), (pf_key l2, v2), (pf_key l3, v3),
                 (''Number of indexed events'', str_nat (n_indexed self w)),
                 (''Fractional indexing rate'', format_2f rate)]"
  shows "fst (report self u w) = Inr ()"
    and "posts (snd (report self u w)) = posts w @ [(url, body)]"
    and "console (snd (report self u w)) =
           console w @ peakfinding_summary self #
             (if post_raises w url body then [elog_failure] else [])"
  using assms
  by (simp_all add: report_def Let_def write_file_def print_line_def elog_body_def)

text \<open>A line has an entry exactly when it holds a colon.\<close>

lemma pf_val_Inl: "pf_val l = Inl e \<Longrightarrow> e = IndexError"
  by (auto simp: pf_val_def split: list.splits)

lemma pf_val_no_colon: "CHR '':'' \<notin> set l \<Longrightarrow> pf_val l = Inl IndexError"
  by (induction l) (auto simp: pf_val_def split: list.splits if_splits)

lemma pf_val_colon:
  assumes "CHR '':'' \<in> set l"
  shows "\<exists>v. pf_val l = Inr v"
proof -
  have "filter (\<lambda>x. x = CHR '':'') l \<noteq> []"
    using assms by (simp add: filter_empty_conv)
  then have "2 \<le> length (split_on (CHR '':'') l)"
    unfolding length_split_on by (cases "filter (\<lambda>x. x = CHR '':'') l") simp_all
  then obtain a b rest where "split_on (CHR '':'') l = a # b # rest"
    by (cases "split_on (CHR '':'') l"; cases "tl (split_on (CHR '':'') l)") auto
  then show ?thesis
    by (simp add: pf_val_def)
qed

lemma collect_Inl:
  assumes "\<exists>l \<in> set ls. CHR '':'' \<notin> set l"
  shows "collect pf_val ls = Inl IndexError"
  using assms
proof (induction ls)
  case Nil
  then show ?case by simp
next
  case (Cons l ls)
  show ?case
  proof (cases "pf_val l")
    case (Inl e)
    then show ?thesis
      using pf_val_Inl[OF Inl] by simp
  next
    case (Inr v)
    then have "CHR '':'' \<in> set l"
      using pf_val_no_colon[of l] by auto
    then have "collect pf_val ls = Inl IndexError"
      using Cons by auto
    then show ?thesis
      using Inr by simp
  qed
qed

lemma collect_Inr:
  assumes "\<forall>l \<in> set ls. CHR '':'' \<in> set l"
  shows "\<exists>vals. collect pf_val ls = Inr vals \<and> length vals = length ls"
  using assms
proof (induction ls)
  case Nil
  then show ?case by simp
next
  case (Cons l ls)
  obtain v where "pf_val l = Inr v"
    using pf_val_colon[of l] Cons.prems by auto
  moreover obtain vals where "collect pf_val ls = Inr vals" "length vals = length ls"
    using Cons by auto
  ultimately show ?case
    by simp
qed

text \<open>
  What \<^verbatim>\<open>report\<close> does after the summary file is written, when the peak finding summary
  has fewer than three lines or a line without a colon; and that the file system it
  leaves does not depend on the fate of the request.
\<close>

lemma report_without_three_lines:
  assumes "rank self = 0"
    and "n_total self w = Inr t"
    and "true_divide (int (n_indexed self w)) t = Inr rate"
    and "environ w ''JID_UPDATE_COUNTERS'' = Some url"
    and "indexing_summary self \<noteq> peakfinding_summary self"
    and "files w (peakfinding_summary self) = Some content"
    and "length (readlines content) < 3"
    and "\<forall>l \<in> set (readlines content). CHR '':'' \<in> set l"
  shows "fst (report self u w) = Inr ()"
    and "posts (snd (report self u w)) = posts w"
    and "console (snd (report self u w)) = console w @ [peakfinding_summary self, elog_failure]"
proof -
  obtain vals where "collect pf_val (take 3 (readlines content)) = Inr vals"
    using collect_Inr[OF assms(8)] assms(7) by auto
  then show "fst (report self u w) = Inr ()"
    and "posts (snd (report self u w)) = posts w"
    and "console (snd (report self u w)) = console w @ [peakfinding_summary self, elog_failure]"
    using assms(1-7)
    by (simp_all add: report_def Let_def write_file_def print_line_def elog_body_def)
qed

lemma report_without_colon:
  assumes "rank self = 0"
    and "n_total self w = Inr t"
    and "true_divide (int (n_indexed self w)) t = Inr rate"
    and "environ w ''JID_UPDATE_COUNTERS'' = Some url"
    and "indexing_summary self \<noteq> peakfinding_summary self"
    and "files w (peakfinding_summary self) = Some content"
    and "\<exists>l \<in> set (take 3 (readlines content)). CHR '':'' \<notin> set l"
  shows "fst (report self u w) = Inl IndexError"
    and "posts (snd (report self u w)) = posts w"
  using assms(1-6) collect_Inl[OF assms(7)]
  by (simp_all add: report_def Let_def write_file_def print_line_def)

lemma report_same_files:
  "files (snd (report self u (w\<lparr>post_raises := f\<rparr>))) = files (snd (report self u w))"
proof -
  have "n_total self (w\<lparr>post_raises := f\<rparr>) = n_total self w"
    "n_indexed self (w\<lparr>post_raises := f\<rparr>) = n_indexed self w"
    by (simp_all add: n_total_def n_indexed_def)
  then show ?thesis
    by (simp add: report_def Let_def write_file_def print_line_def
        split: sum.splits option.splits)
qed

section \<open>The concrete run, step by step\<close>

lemmas example_worlds =
  example_world_def zero_hits_world_def failing_world_def short_world_def colonless_world_def
  thirds_world_def example_run_def

lemma format_04_7: "format_04 7 = ''0007''"
  by code_simp

lemma py_int_ncores: "py_int ''1'' = Inr 1" "py_int ''4'' = Inr 4"
  by code_simp+

lemma str_examples: "str_nat 50 = ''50''" "str_int 7 = ''7''"
  by code_simp+

lemma example_indexer_built:
  "example_indexer example_world t td m tc mu =
     Inr \<lparr>exp = ''mfxp19619'', run = 7, det_type = ''epix10k2M'', taskdir = td, tag = t,
          tag_cxi = Some (case tc of
                            None \<Rightarrow> []
                          | Some s \<Rightarrow> if s \<noteq> [] \<and> hd s \<noteq> CHR ''_'' then ''_'' @ s else s),
          geom = Some ''r0007.geom'', cell = None, rad = ''4,5,6'', methods = m,
          tolerance = ''5,5,5,1.5'', no_revalidate = True, multi = mu, profile = True,
          lst = path_join td
                  (''r0007/r0007'' @
                   (case tc of
                      None \<Rightarrow> []
                    | Some s \<Rightarrow> if s \<noteq> [] \<and> hd s \<noteq> CHR ''_'' then ''_'' @ s else s) @
                   ''.lst''),
          stream = path_join td (''r0007_'' @ t @ ''.stream''),
          tmp_exe = path_join td ''r0007/index_r0007.sh'',
          peakfinding_summary =
            path_join td
              (''r0007/peakfinding'' @
               (case tc of
                  None \<Rightarrow> []
                | Some s \<Rightarrow> if s \<noteq> [] \<and> hd s \<noteq> CHR ''_'' then ''_'' @ s else s) @
               ''.summary''),
          indexing_summary = path_join td (''r0007/indexing_'' @ t @ ''.summary''),
          script_path = ''/btx/processing/indexer.py'', python_path = ''/usr/bin/python'',
          nproc = ''1'', rank = 0\<rparr>"
  by (simp add: example_indexer_def Indexer_init_def retrieve_paths_def parallel_logic_def
      example_worlds format_04_7 py_int_ncores Let_def)

lemma example_self_built: "example_indexer example_world ''foo'' ''/d'' ''mosflm'' None True = Inr example_self"
  by (simp add: example_indexer_built example_self_def path_join_relative)

lemma example_self_fields:
  "rank example_self = 0" "stream example_self = ''/d/r0007_foo.stream''"
  "tmp_exe example_self = ''/d/r0007/index_r0007.sh''"
  "peakfinding_summary example_self = ''/d/r0007/peakfinding.summary''"
  "indexing_summary example_self = ''/d/r0007/indexing_foo.summary''"
  by (simp_all add: example_self_def)

lemma example_run_fields:
  "environ (example_run summary failing) ''JID_UPDATE_COUNTERS'' = Some ''https://elog/update''"
  "files (example_run summary failing) ''/d/r0007/peakfinding.summary'' = Some summary"
  "files (example_run summary failing) ''/d/r0007_foo.stream'' = Some example_stream"
  "grep_stdout (example_run summary failing) = posix_grep (example_files summary)"
  "post_raises (example_run summary failing) url body = failing"
  "console (example_run summary failing) = []" "posts (example_run summary failing) = []"
  by (simp_all add: example_run_def example_files_def)

lemma example_commands:
  "command example_self =
     ''indexamajig -i /d/r0007/r0007.lst -o /d/r0007_foo.stream -j 1 -g r0007.geom'' @
     '' --peaks=cxi --int-rad=4,5,6 --indexing=mosflm --tolerance=5,5,5,1.5'' @
     '' --no-revalidate --multi --profile''"
  "command_report example_self =
     ''/usr/bin/python /btx/processing/indexer.py -e mfxp19619 -r 7 -d epix10k2M'' @
     '' --taskdir /d --report --tag foo ''"
  by (simp_all add: command_def command_report_def example_self_def fstr_opt_def str_examples)

lemma example_cell_line_facts:
  "CHR 0x0A \<notin> set example_cell_line" "CHR 0x0D \<notin> set example_cell_line"
  "sublist ''Cell parameters'' example_cell_line"
  by (simp_all add: example_cell_line_def sublist_Cons_right)

lemma example_n_indexed: "n_indexed example_self (example_run summary failing) = 50"
proof -
  have "posix_grep (example_files summary) ''Cell parameters'' ''/d/r0007_foo.stream'' =
      example_stream"
    unfolding example_stream_def
    by (rule posix_grep_replicate)
       (simp_all add: example_files_def example_stream_def example_cell_line_facts)
  moreover have "universal_newlines example_stream = example_stream"
    by (rule universal_newlines_id) (simp add: example_stream_def example_cell_line_facts)
  moreover have "split_on (CHR 0x0A) example_stream = replicate 50 example_cell_line @ [[]]"
    unfolding example_stream_def by (rule split_on_replicate) (rule example_cell_line_facts)
  ultimately show ?thesis
    by (simp add: n_indexed_def example_run_fields example_self_fields)
qed

lemma example_grep_hits:
  "universal_newlines
     (posix_grep (example_files example_summary) ''Number of hits found''
        ''/d/r0007/peakfinding.summary'') = ''Number of hits found: 100\<newline>''"
  "universal_newlines
     (posix_grep (example_files zero_summary) ''Number of hits found''
        ''/d/r0007/peakfinding.summary'') = ''Number of hits found: 0\<newline>''"
  "universal_newlines
     (posix_grep (example_files short_summary) ''Number of hits found''
        ''/d/r0007/peakfinding.summary'') = ''Number of hits found: 100\<newline>''"
  by (simp_all add: posix_grep_def example_files_def example_summary_def zero_summary_def
      short_summary_def text_lines_def sublist_Cons_right)

lemma parse_total_examples:
  "parse_total ''Number of hits found: 100\<newline>'' = Inr 100"
  "parse_total ''Number of hits found: 0\<newline>'' = Inr 0"
  by code_simp+

lemma example_n_total:
  "n_total example_self (example_run example_summary failing) = Inr 100"
  "n_total example_self (example_run zero_summary failing) = Inr 0"
  "n_total example_self (example_run short_summary failing) = Inr 100"
  by (simp_all add: n_total_def example_run_fields example_self_fields example_grep_hits
      parse_total_examples)

lemma half_rate: "true_divide 50 100 = Inr (PyFloat False 4503599627370496 (- 53))"
  by code_simp

lemma half_text: "format_2f (PyFloat False 4503599627370496 (- 53)) = ''0.50''"
  by code_simp

lemma example_summary_lines:
  "readlines example_summary =
     [''Number of events processed: 250\<newline>'', ''Number of hits found: 100\<newline>'',
      ''Fractional hit rate: 0.40\<newline>'', ''No. hits per rank: [50 50]\<newline>'']"
  "readlines short_summary = [''Number of hits found: 100\<newline>'']"
  by (simp_all add: readlines_def example_summary_def short_summary_def)

lemma example_pf:
  "pf_val ''Number of events processed: 250\<newline>'' = Inr ''250''"
  "pf_val ''Number of hits found: 100\<newline>'' = Inr ''100''"
  "pf_val ''Fractional hit rate: 0.40\<newline>'' = Inr ''0.40''"
  "pf_key ''Number of events processed: 250\<newline>'' = ''Number of events processed''"
  "pf_key ''Number of hits found: 100\<newline>'' = ''Number of hits found''"
  "pf_key ''Fractional hit rate: 0.40\<newline>'' = ''Fractional hit rate''"
  by (simp_all add: pf_val_def pf_key_def strip_chr_def)

lemma example_report:
  "fst (report example_self u (example_run example_summary failing)) = Inr ()"
  "posts (snd (report example_self u (example_run example_summary failing))) =
     [(''https://elog/update'',
       [(''Number of events processed'', ''250''), (''Number of hits found'', ''100''),
        (''Fractional hit rate'', ''0.40''), (''Number of indexed events'', ''50''),
        (''Fractional indexing rate'', ''0.50'')])]"
  "console (snd (report example_self u (example_run example_summary failing))) =
     ''/d/r0007/peakfinding.summary'' # (if failing then [elog_failure] else [])"
proof -
  let ?w = "example_run example_summary failing"
  note run =
    report_reaches_post[where self = example_self and w = ?w and t = 100 and u = u
      and rate = "PyFloat False 4503599627370496 (- 53)" and url = "''https://elog/update''"
      and content = example_summary, OF _ _ _ _ _ _ example_summary_lines(1) example_pf(1,2,3) refl]
  have pre: "rank example_self = 0" "n_total example_self ?w = Inr 100"
    "true_divide (int (n_indexed example_self ?w)) 100 = Inr (PyFloat False 4503599627370496 (- 53))"
    "environ ?w ''JID_UPDATE_COUNTERS'' = Some ''https://elog/update''"
    "indexing_summary example_self \<noteq> peakfinding_summary example_self"
    "files ?w (peakfinding_summary example_self) = Some example_summary"
    by (simp_all add: example_self_fields example_run_fields example_n_total
        example_n_indexed half_rate)
  show "fst (report example_self u ?w) = Inr ()"
    by (rule run(1)[OF pre])
  show "posts (snd (report example_self u ?w)) =
     [(''https://elog/update'',
       [(''Number of events processed'', ''250''), (''Number of hits found'', ''100''),
        (''Fractional hit rate'', ''0.40''), (''Number of indexed events'', ''50''),
        (''Fractional indexing rate'', ''0.50'')])]"
    using run(2)[OF pre]
    by (simp add: example_pf example_n_indexed str_examples half_text example_run_fields)
  show "console (snd (report example_self u ?w)) =
     ''/d/r0007/peakfinding.summary'' # (if failing then [elog_failure] else [])"
    using run(3)[OF pre] by (simp add: example_run_fields example_self_fields)
qed


text \<open>The other concrete runs.\<close>

lemma example_grep_hits_more:
  "universal_newlines
     (posix_grep (example_files colonless_summary) ''Number of hits found''
        ''/d/r0007/peakfinding.summary'') = ''Number of hits found: 100\<newline>''"
  "universal_newlines
     (posix_grep (example_files thirds_summary) ''Number of hits found''
        ''/d/r0007/peakfinding.summary'') = ''Number of hits found: 3\<newline>''"
  by (simp_all add: posix_grep_def example_files_def colonless_summary_def thirds_summary_def
      text_lines_def sublist_Cons_right)

lemma parse_total_3: "parse_total ''Number of hits found: 3\<newline>'' = Inr 3"
  by code_simp

lemma example_n_total_more:
  "n_total example_self (example_run colonless_summary failing) = Inr 100"
  "n_total example_self (example_run thirds_summary failing) = Inr 3"
  by (simp_all add: n_total_def example_run_fields example_self_fields example_grep_hits_more
      parse_total_examples parse_total_3)

lemma thirds_rate: "true_divide 50 3 = Inr (PyFloat False 4691249611844267 (- 48))"
  by code_simp

lemma thirds_text: "format_2f (PyFloat False 4691249611844267 (- 48)) = ''16.67''"
  by code_simp

lemma colonless_summary_lines:
  "readlines colonless_summary = [''Number of hits found: 100\<newline>'', ''no hits per rank\<newline>'']"
  by (simp add: readlines_def colonless_summary_def)

lemma example_nl_commands:
  "command (example_self\<lparr>nproc := ''1\<newline>''\<rparr>) =
     ''indexamajig -i /d/r0007/r0007.lst -o /d/r0007_foo.stream -j 1\<newline> -g r0007.geom'' @
     '' --peaks=cxi --int-rad=4,5,6 --indexing=mosflm --tolerance=5,5,5,1.5'' @
     '' --no-revalidate --multi --profile''"
  "command_report (example_self\<lparr>nproc := ''1\<newline>''\<rparr>) =
     ''/usr/bin/python /btx/processing/indexer.py -e mfxp19619 -r 7 -d epix10k2M'' @
     '' --taskdir /d --report --tag foo ''"
  by (simp_all add: command_def command_report_def example_self_def fstr_opt_def str_examples)

lemma py_int_ncores_nl: "py_int ''1\<newline>'' = Inr 1"
  by code_simp

lemma example_nl_built:
  "example_indexer (example_world\<lparr>environ := (environ example_world)(''NCORES'' \<mapsto> ''1\<newline>'')\<rparr>)
     ''foo'' ''/d'' ''mosflm'' None True = Inr (example_self\<lparr>nproc := ''1\<newline>''\<rparr>)"
  by (simp add: example_indexer_def Indexer_init_def retrieve_paths_def parallel_logic_def
      example_worlds format_04_7 py_int_ncores_nl Let_def example_self_def path_join_relative)

section \<open>The constructor: paths and the normalised tag\<close>

text \<open>
  Claim C1, as amended. The paths are \<^verbatim>\<open>os.path.join\<close> of the task directory and a relative
  name. For a task directory that is not empty and does not end with a slash they are the
  templates \<^verbatim>\<open>taskdir/r{run:04}/r{run:04}{tag_cxi}.lst\<close> and \<^verbatim>\<open>taskdir/r{run:04}_{tag}.stream\<close>;
  for an empty task directory, or one that ends with a slash, the name follows the task
  directory with no separator put in. Run 7, tag \<^verbatim>\<open>foo\<close>, task directory \<^verbatim>\<open>/d\<close> and no
  \<^verbatim>\<open>tag_cxi\<close> give \<^verbatim>\<open>/d/r0007/r0007.lst\<close> and \<^verbatim>\<open>/d/r0007_foo.stream\<close>.
\<close>

theorem paths_follow_join:
  assumes "Indexer_init w e r d t td g c ir m tol tc nr mu pr = Inr self"
  shows "(td \<noteq> [] \<and> last td \<noteq> CHR ''/'' \<longrightarrow>
            lst self = lst_template td r (fstr_opt (tag_cxi self)) \<and>
            stream self = stream_template td r t) \<and>
         (td = [] \<or> last td = CHR ''/'' \<longrightarrow>
            lst self =
              td @ ''r'' @ format_04 r @ ''/r'' @ format_04 r @ fstr_opt (tag_cxi self) @ ''.lst'' \<and>
            stream self = td @ ''r'' @ format_04 r @ ''_'' @ t @ ''.stream'') \<and>
         (r = 7 \<and> t = ''foo'' \<and> td = ''/d'' \<and> tc = None \<longrightarrow>
            lst self = ''/d/r0007/r0007.lst'' \<and> stream self = ''/d/r0007_foo.stream'')"
proof -
  have "tc = None \<Longrightarrow> fstr_opt (tag_cxi self) = []"
    using Indexer_init_Inr(1)[OF assms] by (simp add: fstr_opt_def)
  then show ?thesis
    using Indexer_init_Inr(2,3)[OF assms]
    by (auto simp: path_join_relative lst_template_def stream_template_def format_04_7)
qed

theorem paths_follow_join_witness:
  "example_indexer example_world ''foo'' ''/d'' ''mosflm'' None True = Inr example_self \<and>
   lst example_self = ''/d/r0007/r0007.lst'' \<and>
   stream example_self = ''/d/r0007_foo.stream'' \<and>
   lst example_self = lst_template ''/d'' 7 [] \<and>
   stream example_self = stream_template ''/d'' 7 ''foo'' \<and>
   map_sum id lst (example_indexer example_world ''foo'' ''/d/'' ''mosflm'' None True) =
     Inr (''/d/'' @ ''r'' @ format_04 7 @ ''/r'' @ format_04 7 @ ''.lst'')"
proof -
  have sl: "example_indexer example_world ''foo'' ''/d/'' ''mosflm'' None True = Inr s
      \<Longrightarrow> lst s = ''/d/'' @ ''r'' @ format_04 7 @ ''/r'' @ format_04 7 @ ''.lst''" for s
    using paths_follow_join[of example_world _ 7 _ "''foo''" "''/d/''" _ _ _ _ _ None _ True _ s]
    by (auto simp: example_indexer_def fstr_opt_def dest: Indexer_init_Inr(1))
  note run = paths_follow_join[OF example_self_built[unfolded example_indexer_def]]
  have "lst example_self = lst_template ''/d'' 7 (fstr_opt (tag_cxi example_self))"
    "stream example_self = stream_template ''/d'' 7 ''foo''"
    using run by simp_all
  moreover have "fstr_opt (tag_cxi example_self) = []"
    by (simp add: example_self_def fstr_opt_def)
  moreover have "lst_template ''/d'' 7 [] = ''/d/r0007/r0007.lst''"
    "stream_template ''/d'' 7 ''foo'' = ''/d/r0007_foo.stream''"
    by (simp_all add: lst_template_def stream_template_def format_04_7)
  ultimately show ?thesis
    using sl by (simp add: example_self_built) (simp add: example_indexer_built)
qed

text \<open>
  Claim C1 as stated, for every task directory, fails: with the task directory \<^verbatim>\<open>/d/\<close> the
  paths have one slash where the templates have two, and with the empty task directory
  they are relative where the templates start at the root.
\<close>

theorem templates_counterexample:
  "map_sum id lst (example_indexer example_world ''foo'' ''/d/'' ''mosflm'' None True) =
     Inr ''/d/r0007/r0007.lst'' \<and>
   lst_template ''/d/'' 7 [] = ''/d//r0007/r0007.lst'' \<and>
   map_sum id stream (example_indexer example_world ''foo'' ''/d/'' ''mosflm'' None True) =
     Inr ''/d/r0007_foo.stream'' \<and>
   stream_template ''/d/'' 7 ''foo'' = ''/d//r0007_foo.stream'' \<and>
   map_sum id lst (example_indexer example_world ''foo'' [] ''mosflm'' None True) = Inr ''r0007/r0007.lst'' \<and>
   lst_template [] 7 [] = ''/r0007/r0007.lst'' \<and>
   map_sum id stream (example_indexer example_world ''foo'' [] ''mosflm'' None True) =
     Inr ''r0007_foo.stream'' \<and>
   stream_template [] 7 ''foo'' = ''/r0007_foo.stream''"
  by (simp add: example_indexer_built path_join_relative lst_template_def stream_template_def
      format_04_7)

text \<open>
  Claim C2. The constructor stores \<^verbatim>\<open>tag_cxi\<close> normalised: \<^verbatim>\<open>"bar"\<close> becomes \<^verbatim>\<open>"_bar"\<close>, every
  non-empty text that does not start with an underscore gets one in front, a text that
  starts with one is kept, and the empty text and \<^verbatim>\<open>None\<close> both become the empty text.
\<close>

theorem tag_cxi_normalised:
  assumes "Indexer_init w e r d t td g c ir m tol tc nr mu pr = Inr self"
  shows "(tc = Some ''bar'' \<longrightarrow> tag_cxi self = Some ''_bar'') \<and>
         (\<forall>s. tc = Some s \<and> s \<noteq> [] \<and> hd s \<noteq> CHR ''_'' \<longrightarrow> tag_cxi self = Some (CHR ''_'' # s)) \<and>
         (\<forall>s. tc = Some s \<and> s \<noteq> [] \<and> hd s = CHR ''_'' \<longrightarrow> tag_cxi self = Some s) \<and>
         (tc = Some [] \<or> tc = None \<longrightarrow> tag_cxi self = Some [])"
  using Indexer_init_Inr(1)[OF assms] by auto

theorem tag_cxi_normalised_witness:
  "map_sum id tag_cxi (example_indexer example_world ''foo'' ''/d'' ''mosflm'' (Some ''bar'') True) =
     Inr (Some ''_bar'') \<and>
   map_sum id tag_cxi (example_indexer example_world ''foo'' ''/d'' ''mosflm'' (Some ''_bar'') True) =
     Inr (Some ''_bar'') \<and>
   map_sum id tag_cxi (example_indexer example_world ''foo'' ''/d'' ''mosflm'' (Some []) True) =
     Inr (Some []) \<and>
   map_sum id tag_cxi (example_indexer example_world ''foo'' ''/d'' ''mosflm'' None True) = Inr (Some [])"
proof -
  have built: "\<exists>self. example_indexer example_world ''foo'' ''/d'' ''mosflm'' tc True = Inr self" for tc
    by (simp add: example_indexer_built)
  obtain s1 where h1: "example_indexer example_world ''foo'' ''/d'' ''mosflm'' (Some ''bar'') True = Inr s1"
    using built by blast
  obtain s2 where h2: "example_indexer example_world ''foo'' ''/d'' ''mosflm'' (Some ''_bar'') True = Inr s2"
    using built by blast
  obtain s3 where h3: "example_indexer example_world ''foo'' ''/d'' ''mosflm'' (Some []) True = Inr s3"
    using built by blast
  obtain s4 where h4: "example_indexer example_world ''foo'' ''/d'' ''mosflm'' None True = Inr s4"
    using built by blast
  have "tag_cxi s1 = Some ''_bar''"
    using tag_cxi_normalised[OF h1[unfolded example_indexer_def]] by simp
  moreover have "tag_cxi s2 = Some ''_bar''"
    using tag_cxi_normalised[OF h2[unfolded example_indexer_def]] by simp
  moreover have "tag_cxi s3 = Some []"
    using tag_cxi_normalised[OF h3[unfolded example_indexer_def]] by simp
  moreover have "tag_cxi s4 = Some []"
    using tag_cxi_normalised[OF h4[unfolded example_indexer_def]] by simp
  ultimately show ?thesis
    by (simp add: h1 h2 h3 h4)
qed

section \<open>\<^verbatim>\<open>write_exe\<close>: the command and the script\<close>

text \<open>
  Claim C3, as amended. The command has \<^verbatim>\<open>--multi\<close> in it whenever the multi flag is true,
  and \<^verbatim>\<open>--pdb=\<close> followed by the cell path whenever a cell path is given. The converse
  holds for an \<^verbatim>\<open>Indexer\<close> whose interpolated texts (the two paths, the core count, the
  geometry, the radii, the methods, the tolerance and the cell) do not hold the flag's text
  themselves: then the command has \<^verbatim>\<open>--multi\<close> in it exactly when the multi flag is true, and
  \<^verbatim>\<open>--pdb=\<close> exactly when a cell path is given.
\<close>

theorem command_flags:
  "(multi self \<longrightarrow> sublist ''--multi'' (command self)) \<and>
   (\<forall>c. cell self = Some c \<longrightarrow> sublist (''--pdb='' @ c) (command self)) \<and>
   ((\<forall>v \<in> set (command_values self). \<not> sublist ''--multi'' v) \<longrightarrow>
      (sublist ''--multi'' (command self) \<longleftrightarrow> multi self)) \<and>
   ((\<forall>v \<in> set (command_values self). \<not> sublist ''--pdb='' v) \<longrightarrow>
      (sublist ''--pdb='' (command self) \<longleftrightarrow> cell self \<noteq> None))"
proof -
  have "sublist ''--pdb='' (command self)" if "cell self = Some c" for c
  proof -
    have "sublist ''--pdb='' (''--pdb='' @ c)"
      by (rule sublist_append_rightI)
    then show ?thesis
      using command_has_pdb[OF that] by (rule sublist_order.order_trans)
  qed
  then show ?thesis
    using command_has_multi command_has_pdb command_no_multi command_no_pdb
    by (metis option.exhaust option.distinct(1))
qed

theorem command_flags_witness:
  "multi example_self \<and> cell example_self = None \<and>
   sublist ''--multi'' (command example_self) \<and>
   \<not> sublist ''--pdb='' (command example_self) \<and>
   \<not> sublist ''--multi'' (command (example_self\<lparr>multi := False\<rparr>)) \<and>
   sublist ''--pdb=lyso.cell'' (command (example_self\<lparr>cell := Some ''lyso.cell''\<rparr>))"
  using command_flags[of example_self] command_flags[of "example_self\<lparr>multi := False\<rparr>"]
    command_flags[of "example_self\<lparr>cell := Some ''lyso.cell''\<rparr>"]
  by (simp add: example_self_def command_values_def fstr_opt_def sublist_Cons_right)

text \<open>
  Claim C3 as stated, for every \<^verbatim>\<open>Indexer\<close>, fails: no interpolated text is checked or
  quoted, so with the methods \<^verbatim>\<open>mosflm --multi\<close> and the multi flag false the command has the
  argument \<^verbatim>\<open>--multi\<close>, after the indexing methods.
\<close>

theorem command_flags_counterexample:
  "map_sum id multi (example_indexer example_world ''foo'' ''/d'' ''mosflm --multi'' None False) =
     Inr False \<and>
   map_sum id command (example_indexer example_world ''foo'' ''/d'' ''mosflm --multi'' None False) =
     Inr (''indexamajig -i /d/r0007/r0007.lst -o /d/r0007_foo.stream -j 1'' @
          '' -g r0007.geom --peaks=cxi --int-rad=4,5,6 --indexing=mosflm --multi'' @
          '' --tolerance=5,5,5,1.5 --no-revalidate --profile'') \<and>
   map_sum id (sublist ''--multi'' \<circ> command)
     (example_indexer example_world ''foo'' ''/d'' ''mosflm --multi'' None False) = Inr True"
  by (simp add: example_indexer_built path_join_relative command_def fstr_opt_def
      sublist_Cons_right)

text \<open>
  Claim C8, as amended. On rank 0 \<^verbatim>\<open>write_exe\<close> writes a script that is the line
  \<^verbatim>\<open>#!/bin/bash\<close>, then the indexamajig command, then the invocation of the module itself
  for reporting, each followed by a line feed. Its first line is always \<^verbatim>\<open>#!/bin/bash\<close> and
  at least two lines follow it; the script has exactly three lines, the second being the
  command and the third the invocation, when neither of the two holds a line feed. A value
  put into the command may hold one: \<^verbatim>\<open>int\<close> accepts the core count \<^verbatim>\<open>1\<close> followed by a line
  feed, the text is kept as it is, and the script then has four lines.
\<close>

theorem script_has_three_lines:
  assumes "rank self = 0"
  shows "files (write_exe self w) (tmp_exe self) =
           Some (''#!/bin/bash\<newline>'' @ command self @ ''\<newline>'' @ command_report self @ ''\<newline>'') \<and>
         (\<exists>more. text_lines (''#!/bin/bash\<newline>'' @ command self @ ''\<newline>'' @
                              command_report self @ ''\<newline>'') = ''#!/bin/bash'' # more \<and>
                 2 \<le> length more) \<and>
         (CHR 0x0A \<notin> set (command self) \<and> CHR 0x0A \<notin> set (command_report self) \<longrightarrow>
            text_lines (''#!/bin/bash\<newline>'' @ command self @ ''\<newline>'' @ command_report self @ ''\<newline>'') =
              [''#!/bin/bash'', command self, command_report self])"
proof (intro conjI)
  show "files (write_exe self w) (tmp_exe self) =
      Some (''#!/bin/bash\<newline>'' @ command self @ ''\<newline>'' @ command_report self @ ''\<newline>'')"
    using assms by (simp add: write_exe_def write_file_def print_line_def)
  show "\<exists>more. text_lines (''#!/bin/bash\<newline>'' @ command self @ ''\<newline>'' @
                          command_report self @ ''\<newline>'') = ''#!/bin/bash'' # more \<and>
               2 \<le> length more"
    by (rule script_lines)
  show "CHR 0x0A \<notin> set (command self) \<and> CHR 0x0A \<notin> set (command_report self) \<longrightarrow>
      text_lines (''#!/bin/bash\<newline>'' @ command self @ ''\<newline>'' @ command_report self @ ''\<newline>'') =
        [''#!/bin/bash'', command self, command_report self]"
    using text_lines_three[of "''#!/bin/bash''" "command self" "command_report self"] by simp
qed

theorem script_has_three_lines_witness:
  "rank example_self = 0 \<and>
   files (write_exe example_self example_world) ''/d/r0007/index_r0007.sh'' =
     Some (''#!/bin/bash\<newline>'' @ command example_self @ ''\<newline>'' @
           command_report example_self @ ''\<newline>'') \<and>
   text_lines (''#!/bin/bash\<newline>'' @ command example_self @ ''\<newline>'' @
               command_report example_self @ ''\<newline>'') =
     [''#!/bin/bash'', command example_self, command_report example_self] \<and>
   example_indexer (example_world\<lparr>environ := (environ example_world)(''NCORES'' \<mapsto> ''1\<newline>'')\<rparr>)
     ''foo'' ''/d'' ''mosflm'' None True = Inr (example_self\<lparr>nproc := ''1\<newline>''\<rparr>) \<and>
   map_option text_lines
     (files (write_exe (example_self\<lparr>nproc := ''1\<newline>''\<rparr>) example_world)
        ''/d/r0007/index_r0007.sh'') =
     Some [''#!/bin/bash'',
           ''indexamajig -i /d/r0007/r0007.lst -o /d/r0007_foo.stream -j 1'',
           '' -g r0007.geom --peaks=cxi --int-rad=4,5,6 --indexing=mosflm'' @
           '' --tolerance=5,5,5,1.5 --no-revalidate --multi --profile'',
           ''/usr/bin/python /btx/processing/indexer.py -e mfxp19619 -r 7 -d epix10k2M'' @
           '' --taskdir /d --report --tag foo '']"
proof -
  have f: "rank example_self = 0" "tmp_exe example_self = ''/d/r0007/index_r0007.sh''"
    by (rule example_self_fields)+
  have nl: "CHR 0x0A \<notin> set (command example_self)"
    "CHR 0x0A \<notin> set (command_report example_self)"
    by (simp_all add: example_commands)
  have g: "rank (example_self\<lparr>nproc := ''1\<newline>''\<rparr>) = 0"
    "tmp_exe (example_self\<lparr>nproc := ''1\<newline>''\<rparr>) = ''/d/r0007/index_r0007.sh''"
    by (simp_all add: example_self_fields)
  have "files (write_exe (example_self\<lparr>nproc := ''1\<newline>''\<rparr>) example_world)
          ''/d/r0007/index_r0007.sh'' =
        Some (''#!/bin/bash\<newline>'' @ command (example_self\<lparr>nproc := ''1\<newline>''\<rparr>) @ ''\<newline>'' @
              command_report (example_self\<lparr>nproc := ''1\<newline>''\<rparr>) @ ''\<newline>'')"
    using script_has_three_lines[OF g(1), of example_world] unfolding g(2) by (rule conjunct1)
  then have four: "map_option text_lines
     (files (write_exe (example_self\<lparr>nproc := ''1\<newline>''\<rparr>) example_world)
        ''/d/r0007/index_r0007.sh'') =
     Some [''#!/bin/bash'',
           ''indexamajig -i /d/r0007/r0007.lst -o /d/r0007_foo.stream -j 1'',
           '' -g r0007.geom --peaks=cxi --int-rad=4,5,6 --indexing=mosflm'' @
           '' --tolerance=5,5,5,1.5 --no-revalidate --multi --profile'',
           ''/usr/bin/python /btx/processing/indexer.py -e mfxp19619 -r 7 -d epix10k2M'' @
           '' --taskdir /d --report --tag foo '']"
    by (simp add: example_nl_commands text_lines_def)
  show ?thesis
    using script_has_three_lines[OF f(1), of example_world] f nl four example_nl_built
    by simp
qed

text \<open>
  Claim C8 as stated fails: the script of the concrete run has three lines, and its first
  line is \<^verbatim>\<open>#!/bin/bash\<close>, not the indexamajig command.
\<close>

theorem script_two_lines_counterexample:
  "map_option text_lines (files (write_exe example_self example_world) (tmp_exe example_self)) =
     Some [''#!/bin/bash'',
           ''indexamajig -i /d/r0007/r0007.lst -o /d/r0007_foo.stream -j 1 -g r0007.geom'' @
           '' --peaks=cxi --int-rad=4,5,6 --indexing=mosflm --tolerance=5,5,5,1.5'' @
           '' --no-revalidate --multi --profile'',
           ''/usr/bin/python /btx/processing/indexer.py -e mfxp19619 -r 7 -d epix10k2M'' @
           '' --taskdir /d --report --tag foo '']"
proof -
  show ?thesis
    by (simp add: write_exe_def write_file_def print_line_def example_self_fields
        example_commands text_lines_def)
qed

section \<open>\<^verbatim>\<open>report\<close>: the summary file and the request\<close>

text \<open>
  Claim C4. On rank 0, when the number of hits parses and is not zero, and the number of
  indexed events is below \<open>2\<^sup>1\<^sup>0\<^sup>2\<^sup>3\<close>, the division returns a rate and \<^verbatim>\<open>report\<close> leaves a
  summary file of exactly two lines: the number of indexed events, then the rate.
  The rate is the quotient of the two counts in the format \<^verbatim>\<open>.2f\<close>: a sign when the number
  of hits is negative, then the hundredths \<open>c\<close> written with a point before the last two
  digits, where \<open>c/100\<close> differs from the exact quotient by at most
  \<open>0.005 + quotient / 2\<^sup>5\<^sup>3 + 2\<^sup>-\<^sup>1\<^sup>0\<^sup>7\<^sup>5\<close> (the inequality below is this one, multiplied by
  \<open>100 \<sqdot> 2\<^sup>1\<^sup>0\<^sup>7\<^sup>5 \<sqdot> \<bar>t\<bar>\<close>). For 50 indexed events and 100 hits the rate reads \<^verbatim>\<open>0.50\<close>; for
  50 indexed events and 3 hits it reads \<^verbatim>\<open>16.67\<close>.
\<close>

theorem summary_has_count_and_rate:
  assumes "rank self = 0" and "n_total self w = Inr t" and "t \<noteq> 0"
    and "int (n_indexed self w) < 2 ^ 1023"
  shows "\<exists>rate.
           true_divide (int (n_indexed self w)) t = Inr rate \<and>
           files (snd (report self u w)) (indexing_summary self) =
             Some (summary_line1 (n_indexed self w) @ summary_line2 rate) \<and>
           text_lines (summary_line1 (n_indexed self w) @ summary_line2 rate) =
             [''Number of indexed events: '' @ str_nat (n_indexed self w),
              ''Fractional indexing rate rate: '' @ format_2f rate] \<and>
           format_2f rate =
             (if t < 0 then ''-'' else []) @ str_nat (nat (hundredths rate div 100)) @ ''.'' @
             [digit_chr (nat (hundredths rate div 10 mod 10)), digit_chr (nat (hundredths rate mod 10))] \<and>
           (\<exists>a d1 d2. format_2f rate = a @ [CHR ''.'', d1, d2] \<and> is_digit d1 \<and> is_digit d2) \<and>
           0 \<le> hundredths rate \<and>
           2 ^ 1075 * \<bar>hundredths rate * \<bar>t\<bar> - 100 * int (n_indexed self w)\<bar> \<le>
             2 ^ 1074 * \<bar>t\<bar> + 100 * 2 ^ 1022 * int (n_indexed self w) + 100 * \<bar>t\<bar> \<and>
           (n_indexed self w = 50 \<and> t = 100 \<longrightarrow> format_2f rate = ''0.50'')"
proof -
  obtain rate where rate: "true_divide (int (n_indexed self w)) t = Inr rate"
    using true_divide_returns[of "int (n_indexed self w)" t] assms(3,4) by auto
  have "files (snd (report self u w)) (indexing_summary self) =
      Some (summary_line1 (n_indexed self w) @ summary_line2 rate)"
    by (simp add: report_files[OF assms(1,2) rate])
  moreover have "text_lines (summary_line1 (n_indexed self w) @ summary_line2 rate) =
      [''Number of indexed events: '' @ str_nat (n_indexed self w),
       ''Fractional indexing rate rate: '' @ format_2f rate]"
    by (rule summary_lines)
  moreover have "fneg rate \<longleftrightarrow> t < 0"
    by (rule rate_sign(1)[OF _ rate]) simp
  then have "format_2f rate =
      (if t < 0 then ''-'' else []) @ str_nat (nat (hundredths rate div 100)) @ ''.'' @
      [digit_chr (nat (hundredths rate div 10 mod 10)), digit_chr (nat (hundredths rate mod 10))]"
    by (simp add: format_2f_def Let_def)
  moreover have "\<exists>a d1 d2. format_2f rate = a @ [CHR ''.'', d1, d2] \<and> is_digit d1 \<and> is_digit d2"
    by (rule format_2f_two_decimals)
  moreover have "0 \<le> hundredths rate"
    by (rule rate_sign(2)[OF _ rate]) simp
  moreover have "2 ^ 1075 * \<bar>hundredths rate * \<bar>t\<bar> - 100 * int (n_indexed self w)\<bar> \<le>
      2 ^ 1074 * \<bar>t\<bar> + 100 * 2 ^ 1022 * int (n_indexed self w) + 100 * \<bar>t\<bar>"
    by (rule rate_accuracy[OF _ rate]) simp
  moreover have "n_indexed self w = 50 \<and> t = 100 \<longrightarrow> format_2f rate = ''0.50''"
    using rate by (auto simp: half_rate half_text)
  ultimately show ?thesis
    using rate by (intro exI[of _ rate] conjI)
qed

theorem summary_has_count_and_rate_witness:
  "rank example_self = 0 \<and> n_indexed example_self example_world = 50 \<and>
   n_total example_self example_world = Inr 100 \<and>
   true_divide 50 100 = Inr (PyFloat False 4503599627370496 (- 53)) \<and>
   hundredths (PyFloat False 4503599627370496 (- 53)) = 50 \<and>
   files (snd (report example_self None example_world)) ''/d/r0007/indexing_foo.summary'' =
     Some ''Number of indexed events: 50\<newline>Fractional indexing rate rate: 0.50\<newline>'' \<and>
   text_lines ''Number of indexed events: 50\<newline>Fractional indexing rate rate: 0.50\<newline>'' =
     [''Number of indexed events: 50'', ''Fractional indexing rate rate: 0.50''] \<and>
   n_indexed example_self thirds_world = 50 \<and> n_total example_self thirds_world = Inr 3 \<and>
   files (snd (report example_self None thirds_world)) ''/d/r0007/indexing_foo.summary'' =
     Some ''Number of indexed events: 50\<newline>Fractional indexing rate rate: 16.67\<newline>''"
proof -
  have pre: "rank example_self = 0" "n_total example_self example_world = Inr 100"
    "(100::int) \<noteq> 0" "int (n_indexed example_self example_world) < 2 ^ 1023"
    by (simp_all add: example_self_fields example_world_def example_n_total example_n_indexed)
  have pre3: "rank example_self = 0" "n_total example_self thirds_world = Inr 3"
    "(3::int) \<noteq> 0" "int (n_indexed example_self thirds_world) < 2 ^ 1023"
    by (simp_all add: example_self_fields thirds_world_def example_n_total_more example_n_indexed)
  have n: "n_indexed example_self example_world = 50" "n_indexed example_self thirds_world = 50"
    by (simp_all add: example_world_def thirds_world_def example_n_indexed)
  have h: "hundredths (PyFloat False 4503599627370496 (- 53)) = 50"
    by code_simp
  obtain rate where r: "true_divide (int (n_indexed example_self example_world)) 100 = Inr rate"
    and f: "files (snd (report example_self None example_world)) (indexing_summary example_self) =
      Some (summary_line1 (n_indexed example_self example_world) @ summary_line2 rate)"
    and l: "text_lines (summary_line1 (n_indexed example_self example_world) @ summary_line2 rate) =
      [''Number of indexed events: '' @ str_nat (n_indexed example_self example_world),
       ''Fractional indexing rate rate: '' @ format_2f rate]"
    using summary_has_count_and_rate[OF pre, of None] by blast
  have "rate = PyFloat False 4503599627370496 (- 53)"
    using r by (simp add: n half_rate)
  then have half: "files (snd (report example_self None example_world)) ''/d/r0007/indexing_foo.summary'' =
      Some ''Number of indexed events: 50\<newline>Fractional indexing rate rate: 0.50\<newline>'' \<and>
    text_lines ''Number of indexed events: 50\<newline>Fractional indexing rate rate: 0.50\<newline>'' =
      [''Number of indexed events: 50'', ''Fractional indexing rate rate: 0.50'']"
    using f l
    by (simp add: n half_text example_self_fields summary_line1_def summary_line2_def
        str_examples)
  obtain rate3 where r3: "true_divide (int (n_indexed example_self thirds_world)) 3 = Inr rate3"
    and f3: "files (snd (report example_self None thirds_world)) (indexing_summary example_self) =
      Some (summary_line1 (n_indexed example_self thirds_world) @ summary_line2 rate3)"
    using summary_has_count_and_rate[OF pre3, of None] by blast
  have "rate3 = PyFloat False 4691249611844267 (- 48)"
    using r3 by (simp add: n thirds_rate)
  then have thirds: "files (snd (report example_self None thirds_world))
      ''/d/r0007/indexing_foo.summary'' =
      Some ''Number of indexed events: 50\<newline>Fractional indexing rate rate: 16.67\<newline>''"
    using f3
    by (simp add: n thirds_text example_self_fields summary_line1_def summary_line2_def
        str_examples)
  show ?thesis
    using pre(1,2) pre3(2) n h half_rate half thirds by simp
qed

text \<open>
  Claim C5. On rank 0, when the number of hits parses as zero, \<^verbatim>\<open>report\<close> raises
  \<^verbatim>\<open>ZeroDivisionError\<close> to its caller. No rate is written: the summary file is left with its
  first line only, and nothing is posted.
\<close>

theorem zero_total_raises:
  assumes "rank self = 0" and "n_total self w = Inr 0"
  shows "fst (report self u w) = Inl ZeroDivisionError \<and>
         files (snd (report self u w)) =
           (files w)(indexing_summary self \<mapsto> summary_line1 (n_indexed self w)) \<and>
         text_lines (summary_line1 (n_indexed self w)) =
           [''Number of indexed events: '' @ str_nat (n_indexed self w)] \<and>
         posts (snd (report self u w)) = posts w"
proof -
  have "text_lines (summary_line1 n) = [''Number of indexed events: '' @ str_nat n]" for n
    using text_lines_one[of "''Number of indexed events: '' @ str_nat n"]
    by (simp add: summary_line1_def str_nat_no_newline)
  then show ?thesis
    using assms
    by (simp add: report_def Let_def true_divide_def write_file_def print_line_def)
qed

theorem zero_total_raises_witness:
  "rank example_self = 0 \<and> n_total example_self zero_hits_world = Inr 0 \<and>
   fst (report example_self None zero_hits_world) = Inl ZeroDivisionError \<and>
   files (snd (report example_self None zero_hits_world)) ''/d/r0007/indexing_foo.summary'' =
     Some ''Number of indexed events: 50\<newline>'' \<and>
   posts (snd (report example_self None zero_hits_world)) = []"
proof -
  have pre: "rank example_self = 0" "n_total example_self zero_hits_world = Inr 0"
    by (simp_all add: example_self_fields zero_hits_world_def example_n_total)
  show ?thesis
    using zero_total_raises[OF pre, of None] pre
    by (simp add: example_self_fields zero_hits_world_def example_run_fields example_n_indexed
        summary_line1_def str_examples)
qed

text \<open>
  Claim C6. Let \<^verbatim>\<open>report\<close> run on rank 0 with a number of hits that parses and is not zero
  (the number of indexed events below \<open>2\<^sup>1\<^sup>0\<^sup>2\<^sup>3\<close>), the progress URL in the environment, and
  a peak finding summary, other than the file written, whose first three lines have an
  entry each. Then \<^verbatim>\<open>report\<close> issues the request with the five entries, and when that request
  raises, \<^verbatim>\<open>report\<close> still returns normally; the message is printed after the path of the
  peak finding summary; and the summary file holds its two lines, the file system being
  the one a successful request leaves.
\<close>

theorem post_failure_is_caught:
  assumes "rank self = 0"
    and "n_total self w = Inr t" and "t \<noteq> 0" and "int (n_indexed self w) < 2 ^ 1023"
    and "environ w ''JID_UPDATE_COUNTERS'' = Some url"
    and "indexing_summary self \<noteq> peakfinding_summary self"
    and "files w (peakfinding_summary self) = Some content"
    and "readlines content = la # lb # lc # rest"
    and "pf_val la = Inr va" and "pf_val lb = Inr vb" and "pf_val lc = Inr vc"
  shows "\<exists>rate body.
           true_divide (int (n_indexed self w)) t = Inr rate \<and>
           body = [(pf_key la, va), (pf_key lb, vb), (pf_key lc, vc),
                   (''Number of indexed events'', str_nat (n_indexed self w)),
                   (''Fractional indexing rate'', format_2f rate)] \<and>
           posts (snd (report self u w)) = posts w @ [(url, body)] \<and>
           (post_raises w url body \<longrightarrow>
              fst (report self u w) = Inr () \<and>
              console (snd (report self u w)) =
                console w @ [peakfinding_summary self, elog_failure] \<and>
              files (snd (report self u w)) =
                (files w)(indexing_summary self \<mapsto>
                   summary_line1 (n_indexed self w) @ summary_line2 rate) \<and>
              files (snd (report self u w)) =
                files (snd (report self u (w\<lparr>post_raises := \<lambda>url body. False\<rparr>))))"
proof -
  obtain rate where rate: "true_divide (int (n_indexed self w)) t = Inr rate"
    using true_divide_returns[of "int (n_indexed self w)" t] assms(3,4) by auto
  define body where "body = [(pf_key la, va), (pf_key lb, vb), (pf_key lc, vc),
      (''Number of indexed events'', str_nat (n_indexed self w)),
      (''Fractional indexing rate'', format_2f rate)]"
  note run = report_reaches_post[OF assms(1,2) rate assms(5-11) body_def, of u]
  have "posts (snd (report self u w)) = posts w @ [(url, body)]"
    by (rule run(2))
  moreover have "fst (report self u w) = Inr ()"
    by (rule run(1))
  moreover have "console (snd (report self u w)) =
      console w @ [peakfinding_summary self, elog_failure]" if "post_raises w url body"
    using run(3) that by simp
  moreover have "files (snd (report self u w)) =
      (files w)(indexing_summary self \<mapsto> summary_line1 (n_indexed self w) @ summary_line2 rate)"
    by (rule report_files[OF assms(1,2) rate])
  moreover have "files (snd (report self u w)) =
      files (snd (report self u (w\<lparr>post_raises := \<lambda>url body. False\<rparr>)))"
    by (simp add: report_same_files)
  ultimately show ?thesis
    using rate body_def by (intro exI[of _ rate] exI[of _ body]) simp
qed

theorem post_failure_is_caught_witness:
  "rank example_self = 0 \<and> n_total example_self failing_world = Inr 100 \<and>
   environ failing_world ''JID_UPDATE_COUNTERS'' = Some ''https://elog/update'' \<and>
   files failing_world ''/d/r0007/peakfinding.summary'' = Some example_summary \<and>
   post_raises failing_world ''https://elog/update''
     [(''Number of events processed'', ''250''), (''Number of hits found'', ''100''),
      (''Fractional hit rate'', ''0.40''), (''Number of indexed events'', ''50''),
      (''Fractional indexing rate'', ''0.50'')] \<and>
   posts (snd (report example_self None failing_world)) =
     [(''https://elog/update'',
       [(''Number of events processed'', ''250''), (''Number of hits found'', ''100''),
        (''Fractional hit rate'', ''0.40''), (''Number of indexed events'', ''50''),
        (''Fractional indexing rate'', ''0.50'')])] \<and>
   fst (report example_self None failing_world) = Inr () \<and>
   console (snd (report example_self None failing_world)) =
     [''/d/r0007/peakfinding.summary'', ''Could not communicate with the elog update url''] \<and>
   files (snd (report example_self None failing_world)) ''/d/r0007/indexing_foo.summary'' =
     Some ''Number of indexed events: 50\<newline>Fractional indexing rate rate: 0.50\<newline>'' \<and>
   files (snd (report example_self None failing_world)) ''/d/r0007/peakfinding.summary'' =
     Some example_summary \<and>
   files (snd (report example_self None failing_world)) =
     files (snd (report example_self None (failing_world\<lparr>post_raises := \<lambda>url body. False\<rparr>)))"
proof -
  have pre: "rank example_self = 0" "n_total example_self failing_world = Inr 100"
    "(100::int) \<noteq> 0" "int (n_indexed example_self failing_world) < 2 ^ 1023"
    "environ failing_world ''JID_UPDATE_COUNTERS'' = Some ''https://elog/update''"
    "indexing_summary example_self \<noteq> peakfinding_summary example_self"
    "files failing_world (peakfinding_summary example_self) = Some example_summary"
    by (simp_all add: example_self_fields failing_world_def example_run_fields example_n_total
        example_n_indexed)
  have n: "n_indexed example_self failing_world = 50"
    by (simp add: failing_world_def example_n_indexed)
  obtain rate body where r: "true_divide (int (n_indexed example_self failing_world)) 100 = Inr rate"
    and b: "body = [(pf_key ''Number of events processed: 250\<newline>'', ''250''),
                    (pf_key ''Number of hits found: 100\<newline>'', ''100''),
                    (pf_key ''Fractional hit rate: 0.40\<newline>'', ''0.40''),
                    (''Number of indexed events'', str_nat (n_indexed example_self failing_world)),
                    (''Fractional indexing rate'', format_2f rate)]"
    and p: "posts (snd (report example_self None failing_world)) =
              posts failing_world @ [(''https://elog/update'', body)]"
    and c: "post_raises failing_world ''https://elog/update'' body \<longrightarrow>
              fst (report example_self None failing_world) = Inr () \<and>
              console (snd (report example_self None failing_world)) =
                console failing_world @ [peakfinding_summary example_self, elog_failure] \<and>
              files (snd (report example_self None failing_world)) =
                (files failing_world)(indexing_summary example_self \<mapsto>
                   summary_line1 (n_indexed example_self failing_world) @ summary_line2 rate) \<and>
              files (snd (report example_self None failing_world)) =
                files (snd (report example_self None
                             (failing_world\<lparr>post_raises := \<lambda>url body. False\<rparr>)))"
    using post_failure_is_caught[OF pre example_summary_lines(1) example_pf(1,2,3), of None]
    by blast
  have rate: "rate = PyFloat False 4503599627370496 (- 53)"
    using r by (simp add: n half_rate)
  have body: "body = [(''Number of events processed'', ''250''), (''Number of hits found'', ''100''),
      (''Fractional hit rate'', ''0.40''), (''Number of indexed events'', ''50''),
      (''Fractional indexing rate'', ''0.50'')]"
    using b by (simp add: rate n example_pf str_examples half_text)
  have raises: "post_raises failing_world ''https://elog/update'' body"
    by (simp add: failing_world_def example_run_fields)
  note c' = c[rule_format, OF raises]
  have f1: "fst (report example_self None failing_world) = Inr ()"
    using c' by (rule conjunct1)
  have f2: "console (snd (report example_self None failing_world)) =
      [''/d/r0007/peakfinding.summary'', ''Could not communicate with the elog update url'']"
    using c'[THEN conjunct2, THEN conjunct1]
    by (simp add: failing_world_def example_run_fields example_self_fields elog_failure_def)
  have fs: "files (snd (report example_self None failing_world)) =
      (files failing_world)(''/d/r0007/indexing_foo.summary'' \<mapsto>
         ''Number of indexed events: 50\<newline>Fractional indexing rate rate: 0.50\<newline>'')"
    using c'[THEN conjunct2, THEN conjunct2, THEN conjunct1]
    by (simp add: rate n example_self_fields summary_line1_def summary_line2_def str_examples
        half_text)
  have f3: "files (snd (report example_self None failing_world))
      ''/d/r0007/indexing_foo.summary'' =
      Some ''Number of indexed events: 50\<newline>Fractional indexing rate rate: 0.50\<newline>''"
    and f4: "files (snd (report example_self None failing_world))
      ''/d/r0007/peakfinding.summary'' = Some example_summary"
    unfolding fs by (simp_all add: failing_world_def example_run_fields)
  have f5: "files (snd (report example_self None failing_world)) =
      files (snd (report example_self None (failing_world\<lparr>post_raises := \<lambda>url body. False\<rparr>)))"
    using c'[THEN conjunct2, THEN conjunct2, THEN conjunct2] .
  have f6: "posts (snd (report example_self None failing_world)) =
      [(''https://elog/update'',
       [(''Number of events processed'', ''250''), (''Number of hits found'', ''100''),
        (''Fractional hit rate'', ''0.40''), (''Number of indexed events'', ''50''),
        (''Fractional indexing rate'', ''0.50'')])]"
    using p by (simp add: body failing_world_def example_run_fields)
  have f7: "post_raises failing_world ''https://elog/update''
     [(''Number of events processed'', ''250''), (''Number of hits found'', ''100''),
      (''Fractional hit rate'', ''0.40''), (''Number of indexed events'', ''50''),
      (''Fractional indexing rate'', ''0.50'')]"
    using raises unfolding body .
  have f8: "files failing_world ''/d/r0007/peakfinding.summary'' = Some example_summary"
    using pre(7) by (simp add: example_self_fields)
  show ?thesis
    using pre(1,2,5) f1 f2 f3 f4 f5 f6 f7 f8 by (intro conjI)
qed

text \<open>
  Claim C9, as amended. Let \<^verbatim>\<open>report\<close> run on rank 0 with the progress URL in the
  environment, a number of hits that parses and is not zero (the number of indexed events
  below \<open>2\<^sup>1\<^sup>0\<^sup>2\<^sup>3\<close>), and a peak finding summary that is there and is not the file
  written (for every constructed \<^verbatim>\<open>Indexer\<close> the two differ, by \<open>Indexer_init_summaries\<close>).
  \<^item> When the summary has three lines or more and each of the first three holds a colon,
    \<^verbatim>\<open>report\<close> returns normally and issues exactly one request, to that URL, with exactly
    five entries: the three pairs of the three lines, then the number of indexed events
    and the rate.
  \<^item> When the summary has fewer than three lines, each with a colon, the indices of the
    entries raise inside \<^verbatim>\<open>try\<close>: \<^verbatim>\<open>report\<close> issues no request, prints the message and
    returns normally.
  \<^item> When one of the first three lines has no colon, \<^verbatim>\<open>report\<close> raises \<^verbatim>\<open>IndexError\<close>,
    before \<^verbatim>\<open>try\<close>, and issues no request.
\<close>

theorem one_post_with_five_entries:
  assumes "rank self = 0"
    and "n_total self w = Inr t" and "t \<noteq> 0" and "int (n_indexed self w) < 2 ^ 1023"
    and "environ w ''JID_UPDATE_COUNTERS'' = Some url"
    and "indexing_summary self \<noteq> peakfinding_summary self"
    and "files w (peakfinding_summary self) = Some content"
  shows "\<exists>rate.
           true_divide (int (n_indexed self w)) t = Inr rate \<and>
           (readlines content = la # lb # lc # rest \<and>
            CHR '':'' \<in> set la \<and> CHR '':'' \<in> set lb \<and> CHR '':'' \<in> set lc \<longrightarrow>
              (\<exists>va vb vc.
                 pf_val la = Inr va \<and> pf_val lb = Inr vb \<and> pf_val lc = Inr vc \<and>
                 fst (report self u w) = Inr () \<and>
                 posts (snd (report self u w)) =
                   posts w @ [(url, [(pf_key la, va), (pf_key lb, vb), (pf_key lc, vc),
                                    (''Number of indexed events'', str_nat (n_indexed self w)),
                                    (''Fractional indexing rate'', format_2f rate)])])) \<and>
           (length (readlines content) < 3 \<and>
            (\<forall>l \<in> set (readlines content). CHR '':'' \<in> set l) \<longrightarrow>
              fst (report self u w) = Inr () \<and>
              posts (snd (report self u w)) = posts w \<and>
              console (snd (report self u w)) =
                console w @ [peakfinding_summary self, elog_failure]) \<and>
           ((\<exists>l \<in> set (take 3 (readlines content)). CHR '':'' \<notin> set l) \<longrightarrow>
              fst (report self u w) = Inl IndexError \<and>
              posts (snd (report self u w)) = posts w)"
proof -
  obtain rate where rate: "true_divide (int (n_indexed self w)) t = Inr rate"
    using true_divide_returns[of "int (n_indexed self w)" t] assms(3,4) by auto
  note pre = assms(1,2) rate assms(5-7)
  have "\<exists>va vb vc.
      pf_val la = Inr va \<and> pf_val lb = Inr vb \<and> pf_val lc = Inr vc \<and>
      fst (report self u w) = Inr () \<and>
      posts (snd (report self u w)) =
        posts w @ [(url, [(pf_key la, va), (pf_key lb, vb), (pf_key lc, vc),
                         (''Number of indexed events'', str_nat (n_indexed self w)),
                         (''Fractional indexing rate'', format_2f rate)])]"
    if h: "readlines content = la # lb # lc # rest \<and>
        CHR '':'' \<in> set la \<and> CHR '':'' \<in> set lb \<and> CHR '':'' \<in> set lc"
  proof -
    obtain va vb vc where v: "pf_val la = Inr va" "pf_val lb = Inr vb" "pf_val lc = Inr vc"
      using h pf_val_colon[of la] pf_val_colon[of lb] pf_val_colon[of lc] by auto
    have lines: "readlines content = la # lb # lc # rest"
      using h by simp
    show ?thesis
      using v report_reaches_post(1,2)[OF pre lines v refl, of u] by blast
  qed
  moreover have "fst (report self u w) = Inr () \<and>
      posts (snd (report self u w)) = posts w \<and>
      console (snd (report self u w)) = console w @ [peakfinding_summary self, elog_failure]"
    if "length (readlines content) < 3 \<and> (\<forall>l \<in> set (readlines content). CHR '':'' \<in> set l)"
    using report_without_three_lines[OF pre, of u] that by simp
  moreover have "fst (report self u w) = Inl IndexError \<and>
      posts (snd (report self u w)) = posts w"
    if "\<exists>l \<in> set (take 3 (readlines content)). CHR '':'' \<notin> set l"
    using report_without_colon[OF pre that, of u] by simp
  ultimately show ?thesis
    using rate by (intro exI[of _ rate]) blast
qed

theorem one_post_with_five_entries_witness:
  "rank example_self = 0 \<and>
   environ example_world ''JID_UPDATE_COUNTERS'' = Some ''https://elog/update'' \<and>
   files example_world ''/d/r0007/peakfinding.summary'' = Some example_summary \<and>
   n_total example_self example_world = Inr 100 \<and>
   fst (report example_self None example_world) = Inr () \<and>
   posts (snd (report example_self None example_world)) =
     [(''https://elog/update'',
       [(''Number of events processed'', ''250''), (''Number of hits found'', ''100''),
        (''Fractional hit rate'', ''0.40''), (''Number of indexed events'', ''50''),
        (''Fractional indexing rate'', ''0.50'')])] \<and>
   files short_world ''/d/r0007/peakfinding.summary'' = Some ''Number of hits found: 100\<newline>'' \<and>
   n_total example_self short_world = Inr 100 \<and>
   fst (report example_self None short_world) = Inr () \<and>
   posts (snd (report example_self None short_world)) = [] \<and>
   console (snd (report example_self None short_world)) =
     [''/d/r0007/peakfinding.summary'', ''Could not communicate with the elog update url''] \<and>
   files colonless_world ''/d/r0007/peakfinding.summary'' =
     Some ''Number of hits found: 100\<newline>no hits per rank\<newline>'' \<and>
   n_total example_self colonless_world = Inr 100 \<and>
   fst (report example_self None colonless_world) = Inl IndexError \<and>
   posts (snd (report example_self None colonless_world)) = []"
proof -
  have pre: "rank example_self = 0" "n_total example_self (example_run summary False) = Inr 100"
    "(100::int) \<noteq> 0" "int (n_indexed example_self (example_run summary False)) < 2 ^ 1023"
    "environ (example_run summary False) ''JID_UPDATE_COUNTERS'' = Some ''https://elog/update''"
    "indexing_summary example_self \<noteq> peakfinding_summary example_self"
    "files (example_run summary False) (peakfinding_summary example_self) = Some summary"
    if "summary \<in> {example_summary, short_summary, colonless_summary}" for summary
    using that
    by (auto simp: example_self_fields example_run_fields example_n_total example_n_total_more
        example_n_indexed)
  have n: "n_indexed example_self (example_run summary False) = 50" for summary
    by (rule example_n_indexed)
  obtain rate where r: "true_divide (int (n_indexed example_self example_world)) 100 = Inr rate"
    and a: "readlines example_summary =
              ''Number of events processed: 250\<newline>'' # ''Number of hits found: 100\<newline>'' #
              ''Fractional hit rate: 0.40\<newline>'' # [''No. hits per rank: [50 50]\<newline>''] \<and>
            CHR '':'' \<in> set ''Number of events processed: 250\<newline>'' \<and>
            CHR '':'' \<in> set ''Number of hits found: 100\<newline>'' \<and>
            CHR '':'' \<in> set ''Fractional hit rate: 0.40\<newline>'' \<longrightarrow>
            (\<exists>va vb vc.
               pf_val ''Number of events processed: 250\<newline>'' = Inr va \<and>
               pf_val ''Number of hits found: 100\<newline>'' = Inr vb \<and>
               pf_val ''Fractional hit rate: 0.40\<newline>'' = Inr vc \<and>
               fst (report example_self None example_world) = Inr () \<and>
               posts (snd (report example_self None example_world)) =
                 posts example_world @
                 [(''https://elog/update'',
                   [(pf_key ''Number of events processed: 250\<newline>'', va),
                    (pf_key ''Number of hits found: 100\<newline>'', vb),
                    (pf_key ''Fractional hit rate: 0.40\<newline>'', vc),
                    (''Number of indexed events'', str_nat (n_indexed example_self example_world)),
                    (''Fractional indexing rate'', format_2f rate)])])"
    using one_post_with_five_entries[OF pre[of example_summary, folded example_world_def],
        where u = None and la = "''Number of events processed: 250\<newline>''"
          and lb = "''Number of hits found: 100\<newline>''" and lc = "''Fractional hit rate: 0.40\<newline>''"
          and rest = "[''No. hits per rank: [50 50]\<newline>'']"]
    by blast
  have rate: "rate = PyFloat False 4503599627370496 (- 53)"
    using r by (simp add: example_world_def n half_rate)
  have one: "fst (report example_self None example_world) = Inr () \<and>
      posts (snd (report example_self None example_world)) =
        [(''https://elog/update'',
          [(''Number of events processed'', ''250''), (''Number of hits found'', ''100''),
           (''Fractional hit rate'', ''0.40''), (''Number of indexed events'', ''50''),
           (''Fractional indexing rate'', ''0.50'')])]"
    using a
    by (simp add: example_summary_lines example_pf rate example_world_def n str_examples
        half_text example_run_fields)
  have "length (readlines short_summary) < 3 \<and>
      (\<forall>l \<in> set (readlines short_summary). CHR '':'' \<in> set l)"
    by (simp add: example_summary_lines)
  then have none: "fst (report example_self None short_world) = Inr () \<and>
      posts (snd (report example_self None short_world)) = [] \<and>
      console (snd (report example_self None short_world)) =
        [''/d/r0007/peakfinding.summary'', ''Could not communicate with the elog update url'']"
    using one_post_with_five_entries[OF pre[of short_summary, folded short_world_def],
        where u = None]
    by (auto simp: short_world_def example_run_fields example_self_fields elog_failure_def)
  have "\<exists>l \<in> set (take 3 (readlines colonless_summary)). CHR '':'' \<notin> set l"
    by (simp add: colonless_summary_lines)
  then have raised: "fst (report example_self None colonless_world) = Inl IndexError \<and>
      posts (snd (report example_self None colonless_world)) = []"
    using one_post_with_five_entries[OF pre[of colonless_summary, folded colonless_world_def],
        where u = None]
    by (auto simp: colonless_world_def example_run_fields)
  have env: "environ example_world ''JID_UPDATE_COUNTERS'' = Some ''https://elog/update''"
    and fe: "files example_world ''/d/r0007/peakfinding.summary'' = Some example_summary"
    and fh: "files short_world ''/d/r0007/peakfinding.summary'' =
      Some ''Number of hits found: 100\<newline>''"
    and fc: "files colonless_world ''/d/r0007/peakfinding.summary'' =
      Some ''Number of hits found: 100\<newline>no hits per rank\<newline>''"
    by (simp_all add: example_world_def short_world_def colonless_world_def example_run_fields
        short_summary_def colonless_summary_def)
  have t: "n_total example_self example_world = Inr 100"
    "n_total example_self short_world = Inr 100"
    "n_total example_self colonless_world = Inr 100"
    using pre(2)[of example_summary] pre(2)[of short_summary] pre(2)[of colonless_summary]
    by (simp_all add: example_world_def short_world_def colonless_world_def)
  show ?thesis
    using example_self_fields(1) env fe t(1) one[THEN conjunct1] one[THEN conjunct2]
      fh t(2) none[THEN conjunct1] none[THEN conjunct2, THEN conjunct1]
      none[THEN conjunct2, THEN conjunct2] fc t(3) raised[THEN conjunct1] raised[THEN conjunct2]
    by (intro conjI)
qed

text \<open>
  Claim C9 as stated fails: with the progress URL in the environment, on a peak finding
  summary of a single line \<^verbatim>\<open>report\<close> returns normally and has issued no request.
\<close>

theorem no_post_counterexample:
  "rank example_self = 0 \<and>
   environ short_world ''JID_UPDATE_COUNTERS'' = Some ''https://elog/update'' \<and>
   files short_world ''/d/r0007/peakfinding.summary'' = Some ''Number of hits found: 100\<newline>'' \<and>
   n_total example_self short_world = Inr 100 \<and>
   fst (report example_self None short_world) = Inr () \<and>
   posts (snd (report example_self None short_world)) = []"
proof -
  have pre: "rank example_self = 0" "n_total example_self short_world = Inr 100"
    "true_divide (int (n_indexed example_self short_world)) 100 =
       Inr (PyFloat False 4503599627370496 (- 53))"
    by (simp_all add: example_self_fields short_world_def example_n_total example_n_indexed
        half_rate)
  have "pf_val ''Number of hits found: 100\<newline>'' = Inr ''100''"
    by (rule example_pf)
  then have run: "fst (report example_self None short_world) = Inr ()"
    "posts (snd (report example_self None short_world)) = []"
    using pre
    by (simp_all add: report_def Let_def write_file_def print_line_def elog_body_def
        example_self_fields short_world_def example_run_fields example_summary_lines)
  have "environ short_world ''JID_UPDATE_COUNTERS'' = Some ''https://elog/update''"
    "files short_world ''/d/r0007/peakfinding.summary'' = Some ''Number of hits found: 100\<newline>''"
    by (simp_all add: short_world_def example_run_fields short_summary_def)
  then show ?thesis
    using pre(1,2) run by (intro conjI)
qed

section \<open>The rank guard and the ignored argument\<close>

text \<open>
  Claim C7. On an \<^verbatim>\<open>Indexer\<close> whose rank is not zero, \<^verbatim>\<open>write_exe\<close> and \<^verbatim>\<open>report\<close> leave the
  world as it is: no file is written, nothing is posted, nothing is printed, and \<^verbatim>\<open>report\<close>
  returns normally.
\<close>

theorem nonzero_rank_no_effects:
  assumes "rank self \<noteq> 0"
  shows "write_exe self w = w \<and> report self update_url w = (Inr (), w)"
  using assms by (simp add: write_exe_def report_def)

theorem nonzero_rank_no_effects_witness:
  "map_sum id rank (example_indexer mpi_world ''foo'' ''/d'' ''mosflm'' None True) = Inr 2 \<and>
   map_sum id (\<lambda>self. write_exe self mpi_world = mpi_world)
     (example_indexer mpi_world ''foo'' ''/d'' ''mosflm'' None True) = Inr True \<and>
   map_sum id (\<lambda>self. report self None mpi_world = (Inr (), mpi_world))
     (example_indexer mpi_world ''foo'' ''/d'' ''mosflm'' None True) = Inr True"
proof -
  have "example_indexer mpi_world ''foo'' ''/d'' ''mosflm'' None True =
      Inr (example_self\<lparr>nproc := ''4'', rank := 2\<rparr>)"
    by (simp add: example_indexer_def Indexer_init_def retrieve_paths_def parallel_logic_def
        mpi_world_def example_worlds format_04_7 py_int_ncores Let_def example_self_def
        path_join_relative)
  moreover have "rank (example_self\<lparr>nproc := ''4'', rank := 2\<rparr>) \<noteq> 0"
    by simp
  ultimately show ?thesis
    using nonzero_rank_no_effects[of "example_self\<lparr>nproc := ''4'', rank := 2\<rparr>" mpi_world None]
    by simp
qed

text \<open>
  Claim C10. The argument \<^verbatim>\<open>update_url\<close> of \<^verbatim>\<open>report\<close> has no effect: two calls that differ
  only in it return the same result and leave the same world (files, requests, console).
\<close>

theorem update_url_ignored: "report self url1 w = report self url2 w"
  by (simp add: report_def)

end
